theory Spec2Isabelle
  imports Complex_Main "HOL-Library.Char_ord" "HOL-Library.List_Lexorder"
begin

section \<open>Tables\<close>

text \<open>
  The mergers of \<^verbatim>\<open>src/data/merger.py\<close> work on pandas data frames. A cell of a table
  is null (\<^verbatim>\<open>None\<close> and \<^verbatim>\<open>NaN\<close>, which \<^verbatim>\<open>isna\<close> does not tell apart), a finite
  number, a string, or one of the two infinities of floating point. What pandas computes
  from numbers (sums, differences, quotients, rounding) is not fixed by this model: it is
  a parameter, the record \<open>pandas\<close> below.

  The two person tables that \<^verbatim>\<open>MainDataMerger\<close> and \<^verbatim>\<open>PeopleMerger\<close> are given come
  from JSON and YAML and may hold lists (the \<^verbatim>\<open>devices\<close> of a person): their cells are
  raw cells. Every other table holds scalar cells only.

  A frame is the list of its column names and the list of its rows; a row maps a column
  name to its cell (null outside the frame's columns). Row labels are not modelled: every
  frame handled here carries pairwise distinct labels, so that a label denotes one row.
  The dtype of a column is the one pandas infers from its cells.
\<close>

datatype cell = Null | Num rat | Str string | PosInf | NegInf

datatype raw_cell = Scalar cell | Lst "string list"

record 'c data_frame =
  columns :: "string list"
  rws :: "(string \<Rightarrow> 'c) list"

type_synonym row = "string \<Rightarrow> cell"

type_synonym frame = "cell data_frame"

type_synonym raw_frame = "raw_cell data_frame"

text \<open>\<^verbatim>\<open>pd.DataFrame()\<close>\<close>

definition DataFrame_empty :: "'c data_frame" where
  "DataFrame_empty = \<lparr>columns = [], rws = []\<rparr>"

text \<open>\<^verbatim>\<open>pd.isna\<close>, \<^verbatim>\<open>pd.notna\<close> on a scalar\<close>

definition isna :: "cell \<Rightarrow> bool" where
  "isna c = (c = Null)"

definition notna :: "cell \<Rightarrow> bool" where
  "notna c = (c \<noteq> Null)"

text \<open>The column \<^verbatim>\<open>df[c]\<close> as the list of its cells.\<close>

definition col :: "string \<Rightarrow> 'c data_frame \<Rightarrow> 'c list" where
  "col c df = map (\<lambda>r. r c) (rws df)"

text \<open>\<^verbatim>\<open>df[c] = None\<close>: a new column is appended, an existing one is overwritten.\<close>

definition set_column_None :: "string \<Rightarrow> frame \<Rightarrow> frame" where
  "set_column_None c df =
     \<lparr>columns = (if c \<in> set (columns df) then columns df else columns df @ [c]),
      rws = map (\<lambda>r. r(c := Null)) (rws df)\<rparr>"

text \<open>\<^verbatim>\<open>df.drop(columns=[c], errors='ignore')\<close>\<close>

definition drop_column :: "string \<Rightarrow> frame \<Rightarrow> frame" where
  "drop_column c df =
     \<lparr>columns = removeAll c (columns df), rws = map (\<lambda>r. r(c := Null)) (rws df)\<rparr>"

definition restrict_row :: "string list \<Rightarrow> row \<Rightarrow> row" where
  "restrict_row cs r = (\<lambda>c. if c \<in> set cs then r c else Null)"

text \<open>
  \<^verbatim>\<open>pd.concat([a, b], ignore_index=True)\<close>: the columns of \<^verbatim>\<open>a\<close>, then those only
  \<^verbatim>\<open>b\<close> has; the rows of \<^verbatim>\<open>a\<close>, then those of \<^verbatim>\<open>b\<close>; a cell of a column the row's
  frame lacks is null.
\<close>

definition pd_concat :: "frame \<Rightarrow> frame \<Rightarrow> frame" where
  "pd_concat a b =
     \<lparr>columns = columns a @ filter (\<lambda>c. c \<notin> set (columns a)) (columns b),
      rws = map (restrict_row (columns a)) (rws a) @ map (restrict_row (columns b)) (rws b)\<rparr>"

text \<open>
  \<^verbatim>\<open>df.drop_duplicates(subset=[k], keep='first')\<close>: a row is dropped when an earlier row
  has the same cell in column \<^verbatim>\<open>k\<close> (two nulls count as the same).
\<close>

fun drop_dups :: "string \<Rightarrow> cell list \<Rightarrow> row list \<Rightarrow> row list" where
  "drop_dups k seen [] = []"
| "drop_dups k seen (r # rs) =
     (if r k \<in> set seen then drop_dups k seen rs else r # drop_dups k (r k # seen) rs)"

definition drop_duplicates :: "string \<Rightarrow> frame \<Rightarrow> frame" where
  "drop_duplicates k df = df\<lparr>rws := drop_dups k [] (rws df)\<rparr>"

section \<open>MainDataMerger\<close>

text \<open>\<^verbatim>\<open>', '.join(map(str, x))\<close> on a list of strings\<close>

fun join_comma :: "string list \<Rightarrow> string" where
  "join_comma [] = []"
| "join_comma [x] = x"
| "join_comma (x # y # ys) = x @ '', '' @ join_comma (y # ys)"

definition is_list :: "raw_cell \<Rightarrow> bool" where
  "is_list x = (case x of Lst _ \<Rightarrow> True | Scalar _ \<Rightarrow> False)"

text \<open>\<^verbatim>\<open>lambda x: ', '.join(map(str, x)) if isinstance(x, list) else x\<close>\<close>

definition list_to_string :: "raw_cell \<Rightarrow> cell" where
  "list_to_string x = (case x of Lst xs \<Rightarrow> Str (join_comma xs) | Scalar c \<Rightarrow> c)"

text \<open>
  Lines 671-676: in every column that holds a list the lists are joined into strings and
  the other cells stay; a column without a list stays as it is. Either way each cell of
  the frame becomes the \<open>list_to_string\<close> of itself, and the frame that results holds
  scalar cells only.
\<close>

definition convert_list_columns :: "raw_frame \<Rightarrow> frame" where
  "convert_list_columns df =
     \<lparr>columns = columns df,
      rws = map (\<lambda>r c. if c \<in> set (columns df) then list_to_string (r c) else Null) (rws df)\<rparr>"

definition common_columns :: "string list" where
  "common_columns = [''user_id'', ''first_name'', ''last_name'', ''email'', ''phone'',
                     ''city'', ''country'', ''devices'']"

text \<open>Lines 693-698: every common column the frame lacks is added, all null.\<close>

definition add_missing_columns :: "frame \<Rightarrow> frame" where
  "add_missing_columns df =
     fold set_column_None (filter (\<lambda>c. c \<notin> set (columns df)) common_columns) df"

text \<open>
  What \<^verbatim>\<open>MainDataMerger.merge\<close> makes of one of its two person tables before it combines
  them: the copy, with its lists joined and the missing common columns added.
\<close>

definition prepared :: "raw_frame \<Rightarrow> frame" where
  "prepared df = add_missing_columns (convert_list_columns df)"

text \<open>
  \<^verbatim>\<open>MainDataMerger.merge\<close> (lines 657-715). The object's fields are the arguments; the
  result is the returned dictionary, as an association list, with the object's
  \<^verbatim>\<open>merge_errors\<close> afterwards. The method reads \<^verbatim>\<open>people_json_df\<close> and
  \<^verbatim>\<open>people_yml_df\<close> only. No operation of its \<^verbatim>\<open>try\<close> block raises on frames
  of this model, so the handler of line 711 has no branch here.
\<close>

definition MainDataMerger_merge ::
  "raw_frame \<Rightarrow> raw_frame \<Rightarrow> frame \<Rightarrow> frame \<Rightarrow> frame option \<Rightarrow> string list
     \<Rightarrow> (string \<times> frame) list \<times> string list" where
  "MainDataMerger_merge people_json_df people_yml_df promotions_df transfers_df
       transactions_df merge_errors =
     (let people_json = prepared people_json_df;
          people_yml = prepared people_yml_df;
          merged_df = pd_concat people_json people_yml;
          merged_df = (if ''user_id'' \<in> set (columns merged_df)
                       then drop_duplicates ''user_id'' merged_df else merged_df)
      in ([(''people'', merged_df)], merge_errors))"

text \<open>The table a returned dictionary holds under a name (the empty frame if none).\<close>

definition table :: "string \<Rightarrow> (string \<times> frame) list \<Rightarrow> frame" where
  "table name d = (case map_of d name of Some df \<Rightarrow> df | None \<Rightarrow> DataFrame_empty)"

definition user_ids :: "frame \<Rightarrow> cell list" where
  "user_ids df = col ''user_id'' df"

section \<open>Errors and messages\<close>

text \<open>
  The exceptions of the mergers: pandas' key errors (\<^verbatim>\<open>df['c']\<close> on a frame without
  the column \<^verbatim>\<open>c\<close>, and \<^verbatim>\<open>df[['c', ...]]\<close> on a frame that has none of the columns),
  the type error of \<^verbatim>\<open>set\<close> on a column of lists, and whatever else pandas raises from
  an operation that is a parameter of this model, with its message.
  \<^verbatim>\<open>str_error\<close> is \<^verbatim>\<open>str(e)\<close>.
\<close>

datatype error =
  KeyError string | KeyErrorNoneOf "string list" | TypeErrorUnhashable | LibraryError string

definition quoted :: "string \<Rightarrow> string" where
  "quoted s = [CHR 0x27] @ s @ [CHR 0x27]"

text \<open>\<^verbatim>\<open>str\<close> of a list of strings\<close>

definition str_list :: "string list \<Rightarrow> string" where
  "str_list xs = ''['' @ join_comma (map quoted xs) @ '']''"

fun str_error :: "error \<Rightarrow> string" where
  "str_error (KeyError k) = quoted k"
| "str_error (KeyErrorNoneOf ks) =
     [CHR 0x22] @ ''None of [Index('' @ str_list ks @ '', dtype='' @ quoted ''object''
       @ '')] are in the [columns]'' @ [CHR 0x22]"
| "str_error TypeErrorUnhashable = ''unhashable type: '' @ quoted ''list''"
| "str_error (LibraryError message) = message"

text \<open>\<^verbatim>\<open>str\<close> of a natural number\<close>

definition digit :: "nat \<Rightarrow> char" where
  "digit d = char_of (48 + d)"

function str_nat :: "nat \<Rightarrow> string" where
  "str_nat n = (if n < 10 then [digit n] else str_nat (n div 10) @ [digit (n mod 10)])"
  by pat_completeness auto
termination
  by (relation "measure id") auto

declare str_nat.simps [simp del]

text \<open>\<^verbatim>\<open>DataMerger._add_error\<close> (lines 56-64) and \<^verbatim>\<open>get_errors\<close> (lines 47-54)\<close>

definition add_error :: "string \<Rightarrow> string list \<Rightarrow> string list" where
  "add_error message merge_errors = merge_errors @ [message]"

definition get_errors :: "string list \<Rightarrow> string list" where
  "get_errors merge_errors = merge_errors"

section \<open>UserReferencesMerger\<close>

text \<open>
  \<^verbatim>\<open>people_df.set_index(k)['user_id'].to_dict()\<close>: the dictionary from the cells of
  column \<^verbatim>\<open>k\<close> to the user ids, a later row overwriting an earlier one with the same
  key. Reading \<^verbatim>\<open>['user_id']\<close> raises when the people table has no such column.
\<close>

definition to_dict :: "string \<Rightarrow> frame \<Rightarrow> error + (cell \<rightharpoonup> cell)" where
  "to_dict k people_df =
     (if ''user_id'' \<in> set (columns people_df)
      then Inr (map_of (rev (map (\<lambda>r. (r k, r ''user_id'')) (rws people_df))))
      else Inl (KeyError ''user_id''))"

text \<open>
  The body of the loops of lines 195-197, 209-211 and 250-252:
  \<^verbatim>\<open>if pd.notna(row[c]) and row[c] in m: df.at[index, 'user_id'] = m[row[c]]\<close>
\<close>

definition fill_user_id :: "string \<Rightarrow> (cell \<rightharpoonup> cell) \<Rightarrow> row \<Rightarrow> row" where
  "fill_user_id c m r =
     (if notna (r c) then (case m (r c) of Some u \<Rightarrow> r(''user_id'' := u) | None \<Rightarrow> r) else r)"

text \<open>Lines 192-201: the lookup by email, over every row.\<close>

definition resolve_by_email :: "frame \<Rightarrow> frame \<Rightarrow> error + frame" where
  "resolve_by_email people_df promotions_df =
     (if ''client_email'' \<in> set (columns promotions_df) \<and> ''email'' \<in> set (columns people_df)
      then (case to_dict ''email'' people_df of
              Inl e \<Rightarrow> Inl e
            | Inr email_map \<Rightarrow>
                Inr (drop_column ''client_email''
                      (promotions_df\<lparr>rws := map (fill_user_id ''client_email'' email_map)
                                              (rws promotions_df)\<rparr>)))
      else Inr promotions_df)"

text \<open>Lines 204-215: the lookup by phone, over the rows that still have no user id.\<close>

definition resolve_by_telephone :: "frame \<Rightarrow> frame \<Rightarrow> error + frame" where
  "resolve_by_telephone people_df promotions_df =
     (if ''telephone'' \<in> set (columns promotions_df) \<and> ''phone'' \<in> set (columns people_df)
      then (case to_dict ''phone'' people_df of
              Inl e \<Rightarrow> Inl e
            | Inr phone_map \<Rightarrow>
                Inr (drop_column ''telephone''
                      (promotions_df\<lparr>rws := map (\<lambda>r. if isna (r ''user_id'')
                                                    then fill_user_id ''telephone'' phone_map r
                                                    else r)
                                              (rws promotions_df)\<rparr>)))
      else Inr promotions_df)"

text \<open>Lines 247-256: the lookup by phone of the transactions, over every row.\<close>

definition resolve_by_phone :: "frame \<Rightarrow> frame \<Rightarrow> error + frame" where
  "resolve_by_phone people_df transactions_df =
     (if ''phone'' \<in> set (columns transactions_df) \<and> ''phone'' \<in> set (columns people_df)
      then (case to_dict ''phone'' people_df of
              Inl e \<Rightarrow> Inl e
            | Inr phone_map \<Rightarrow>
                Inr (drop_column ''phone''
                      (transactions_df\<lparr>rws := map (fill_user_id ''phone'' phone_map)
                                                (rws transactions_df)\<rparr>)))
      else Inr transactions_df)"

text \<open>Lines 218-220 and 259-261: the count of rows without a user id, and its warning.\<close>

definition warn_missing_user_id :: "string \<Rightarrow> frame \<Rightarrow> string list \<Rightarrow> string list" where
  "warn_missing_user_id what df merge_errors =
     (let missing_user_id = length (filter isna (col ''user_id'' df))
      in if missing_user_id > 0
         then add_error (''Could not find user_id for '' @ str_nat missing_user_id @ '' '' @ what)
                merge_errors
         else merge_errors)"

text \<open>
  \<^verbatim>\<open>UserReferencesMerger._add_user_references_to_promotions\<close> (lines 173-222). It works
  on a copy of the promotions; the result is the frame it returns, or the exception it
  raises, with the errors recorded so far.
\<close>

definition add_user_references_to_promotions ::
  "frame \<Rightarrow> frame \<Rightarrow> string list \<Rightarrow> (error + frame) \<times> string list" where
  "add_user_references_to_promotions people_df promotions_df merge_errors =
     (if ''user_id'' \<in> set (columns promotions_df)
         \<and> \<not> list_all isna (col ''user_id'' promotions_df)
      then (Inr promotions_df, merge_errors)
      else
        (let promotions_df = (if ''user_id'' \<notin> set (columns promotions_df)
                              then set_column_None ''user_id'' promotions_df
                              else promotions_df)
         in case resolve_by_email people_df promotions_df of
              Inl e \<Rightarrow> (Inl e, merge_errors)
            | Inr promotions_df \<Rightarrow>
                (case resolve_by_telephone people_df promotions_df of
                   Inl e \<Rightarrow> (Inl e, merge_errors)
                 | Inr promotions_df \<Rightarrow>
                     (Inr promotions_df,
                      warn_missing_user_id ''promotions'' promotions_df merge_errors))))"

text \<open>\<^verbatim>\<open>UserReferencesMerger._add_user_references_to_transactions\<close> (lines 224-263)\<close>

definition add_user_references_to_transactions ::
  "frame \<Rightarrow> frame option \<Rightarrow> string list \<Rightarrow> (error + frame) \<times> string list" where
  "add_user_references_to_transactions people_df transactions_df merge_errors =
     (case transactions_df of
        None \<Rightarrow> (Inr DataFrame_empty, merge_errors)
      | Some transactions_df \<Rightarrow>
          if ''user_id'' \<in> set (columns transactions_df)
             \<and> \<not> list_all isna (col ''user_id'' transactions_df)
          then (Inr transactions_df, merge_errors)
          else
            (let transactions_df = (if ''user_id'' \<notin> set (columns transactions_df)
                                    then set_column_None ''user_id'' transactions_df
                                    else transactions_df)
             in case resolve_by_phone people_df transactions_df of
                  Inl e \<Rightarrow> (Inl e, merge_errors)
                | Inr transactions_df \<Rightarrow>
                    (Inr transactions_df,
                     warn_missing_user_id ''transactions'' transactions_df merge_errors)))"

text \<open>
  The \<^verbatim>\<open>try\<close> block of \<^verbatim>\<open>UserReferencesMerger.merge\<close> (lines 273-287): the dictionary
  it returns or the exception that leaves it, with the errors recorded until then.
\<close>

definition UserReferencesMerger_try ::
  "frame \<Rightarrow> frame \<Rightarrow> frame option \<Rightarrow> string list
     \<Rightarrow> (error + (string \<times> frame option) list) \<times> string list" where
  "UserReferencesMerger_try people_df promotions_df transactions_df merge_errors =
     (case add_user_references_to_promotions people_df promotions_df merge_errors of
        (Inl e, errs) \<Rightarrow> (Inl e, errs)
      | (Inr promotions, errs) \<Rightarrow>
          (case transactions_df of
             None \<Rightarrow> (Inr [(''promotions'', Some promotions)], errs)
           | Some _ \<Rightarrow>
               (case add_user_references_to_transactions people_df transactions_df errs of
                  (Inl e, errs') \<Rightarrow> (Inl e, errs')
                | (Inr transactions, errs') \<Rightarrow>
                    (Inr [(''promotions'', Some promotions),
                          (''transactions'', Some transactions)], errs'))))"

text \<open>
  \<^verbatim>\<open>UserReferencesMerger.merge\<close> (lines 265-293): the handler of line 289 records
  the exception and returns the two tables the object was built with.
\<close>

definition UserReferencesMerger_merge ::
  "frame \<Rightarrow> frame \<Rightarrow> frame option \<Rightarrow> string list
     \<Rightarrow> (string \<times> frame option) list \<times> string list" where
  "UserReferencesMerger_merge people_df promotions_df transactions_df merge_errors =
     (case UserReferencesMerger_try people_df promotions_df transactions_df merge_errors of
        (Inr result, errs) \<Rightarrow> (result, errs)
      | (Inl e, errs) \<Rightarrow>
          ([(''promotions'', Some promotions_df), (''transactions'', transactions_df)],
           add_error (''Unexpected error in user reference merging: '' @ str_error e) errs))"

section \<open>What pandas computes\<close>

text \<open>
  The summaries add, subtract, divide and round numbers, and join tables on a key. What
  these operations return depends on the dtype of the columns (an \<^verbatim>\<open>int64\<close> sum wraps,
  a \<^verbatim>\<open>float64\<close> quotient is rounded in binary, a join of a string key with a numeric key
  raises). None of that is fixed here: the operations are the fields of a record, the
  mergers take the record as their first argument, and what is proved of them holds for
  every such record. An operation returns a cell or raises.

  \<^descr> \<open>reduce_sum\<close>: the reducer \<^verbatim>\<open>'sum'\<close> on the cells of one group.
  \<^descr> \<open>true_divide\<close>, \<open>subtract\<close>: \<^verbatim>\<open>a / b\<close> and \<^verbatim>\<open>a - b\<close> on two cells.
  \<^descr> \<open>round_2\<close>: \<^verbatim>\<open>.round(2)\<close> on a cell.
  \<^descr> \<open>idx_max\<close>: \<^verbatim>\<open>Series.idxmax()\<close> on a series that is not empty.
  \<^descr> \<open>as_float\<close>: the cell as a \<^verbatim>\<open>float64\<close> column holds it.
  \<^descr> \<open>merge_check\<close>: the error \<^verbatim>\<open>pd.merge\<close> raises on two key columns, if any.
  \<^descr> \<open>set_union\<close>: \<^verbatim>\<open>list(set(a).union(set(b)))\<close>: Python fixes neither the order of
    the elements nor how many NaN a set keeps.
\<close>

record pandas =
  reduce_sum :: "cell list \<Rightarrow> error + cell"
  true_divide :: "cell \<Rightarrow> cell \<Rightarrow> error + cell"
  subtract :: "cell \<Rightarrow> cell \<Rightarrow> error + cell"
  round_2 :: "cell \<Rightarrow> error + cell"
  idx_max :: "(cell \<times> cell) list \<Rightarrow> error + cell"
  as_float :: "cell \<Rightarrow> cell"
  merge_check :: "cell list \<Rightarrow> cell list \<Rightarrow> error option"
  set_union :: "cell list \<Rightarrow> cell list \<Rightarrow> cell list"

text \<open>A statement that raises ends the \<^verbatim>\<open>try\<close> block: the rest is not run.\<close>

definition and_then :: "error + 'a \<Rightarrow> ('a \<Rightarrow> error + 'b) \<Rightarrow> error + 'b" where
  "and_then x f = (case x of Inl e \<Rightarrow> Inl e | Inr v \<Rightarrow> f v)"

fun collect :: "(error + 'a) list \<Rightarrow> error + 'a list" where
  "collect [] = Inr []"
| "collect (x # xs) = and_then x (\<lambda>v. and_then (collect xs) (\<lambda>vs. Inr (v # vs)))"

text \<open>
  A series is the list of its (label, value) pairs. \<open>series f keys\<close> computes the value
  at each label in turn; \<open>value_at\<close> is the lookup of \<^verbatim>\<open>.map(series)\<close>, null where the label
  is missing, and \<open>get0\<close> is \<^verbatim>\<open>series.get(key, 0)\<close>.
\<close>

definition series :: "(cell \<Rightarrow> error + cell) \<Rightarrow> cell list \<Rightarrow> error + (cell \<times> cell) list" where
  "series f keys = and_then (collect (map f keys)) (\<lambda>vs. Inr (zip keys vs))"

definition value_at :: "(cell \<times> cell) list \<Rightarrow> cell \<Rightarrow> cell" where
  "value_at s key = (case map_of s key of Some v \<Rightarrow> v | None \<Rightarrow> Null)"

definition get0 :: "(cell \<times> cell) list \<Rightarrow> cell \<Rightarrow> cell" where
  "get0 s key = (case map_of s key of Some v \<Rightarrow> v | None \<Rightarrow> Num 0)"

section \<open>Grouping and reducers\<close>

definition empty_row :: row where
  "empty_row = (\<lambda>c. Null)"

text \<open>
  \<^verbatim>\<open>groupby\<close> sorts its keys. Cells of one column are all numbers or all strings;
  the order between cells of different kinds is a convention of this model (numbers
  first, then strings, then the rest).
\<close>

fun cell_le :: "cell \<Rightarrow> cell \<Rightarrow> bool" where
  "cell_le (Num a) (Num b) = (a \<le> b)"
| "cell_le (Str a) (Str b) = (a \<le> b)"
| "cell_le (Num a) y = True"
| "cell_le x (Num b) = False"
| "cell_le (Str a) y = True"
| "cell_le x (Str b) = False"
| "cell_le x y = True"

fun insert_cell :: "cell \<Rightarrow> cell list \<Rightarrow> cell list" where
  "insert_cell x [] = [x]"
| "insert_cell x (y # ys) = (if cell_le x y then x # y # ys else y # insert_cell x ys)"

definition sort_cells :: "cell list \<Rightarrow> cell list" where
  "sort_cells xs = foldr insert_cell xs []"

text \<open>
  The keys of \<^verbatim>\<open>groupby(k)\<close> over some rows: the distinct non-null cells of column
  \<^verbatim>\<open>k\<close>, sorted (rows with a null key belong to no group); and the rows of one group.
\<close>

definition group_keys :: "string \<Rightarrow> row list \<Rightarrow> cell list" where
  "group_keys k rs = sort_cells (remdups (filter notna (map (\<lambda>r. r k) rs)))"

definition group_rows :: "string \<Rightarrow> cell \<Rightarrow> row list \<Rightarrow> row list" where
  "group_rows k v rs = filter (\<lambda>r. r k = v) rs"

text \<open>
  A grouped column, \<^verbatim>\<open>groupby(k)[c].sum()\<close>, is a series over the group keys. The sum
  of a group is pandas'.
\<close>

definition grouped_sum ::
  "pandas \<Rightarrow> string \<Rightarrow> string \<Rightarrow> row list \<Rightarrow> error + (cell \<times> cell) list" where
  "grouped_sum pd k c rs =
     series (\<lambda>v. reduce_sum pd (map (\<lambda>r. r c) (group_rows k v rs))) (group_keys k rs)"

text \<open>
  The reducer \<^verbatim>\<open>'nunique'\<close>: the number of distinct non-null cells. A count is at most
  the number of rows of the table; every dtype of pandas holds it exactly.
\<close>

definition agg_nunique :: "string \<Rightarrow> row list \<Rightarrow> nat" where
  "agg_nunique c rs = length (remdups (filter notna (map (\<lambda>r. r c) rs)))"

definition grouped_nunique :: "string \<Rightarrow> string \<Rightarrow> row list \<Rightarrow> (cell \<times> cell) list" where
  "grouped_nunique k c rs =
     map (\<lambda>v. (v, Num (of_nat (agg_nunique c (group_rows k v rs))))) (group_keys k rs)"

text \<open>\<^verbatim>\<open>Series.mode()\<close>: the most frequent non-null values, in ascending order.\<close>

definition mode_values :: "cell list \<Rightarrow> cell list" where
  "mode_values xs =
     (let vs = filter notna xs;
          ks = remdups vs;
          m = foldr max (map (count_list vs) ks) 0
      in sort_cells (filter (\<lambda>k. count_list vs k = m) ks))"

text \<open>\<^verbatim>\<open>UserTransactionsMerger._get_favorite_store\<close> (lines 311-325)\<close>

definition get_favorite_store :: "cell list \<Rightarrow> cell" where
  "get_favorite_store stores =
     (if stores = [] then Null
      else (case mode_values stores of [] \<Rightarrow> Null | m # _ \<Rightarrow> m))"

text \<open>\<^verbatim>\<open>UserTransactionsMerger._get_favorite_item\<close> (lines 327-341)\<close>

definition get_favorite_item :: "cell list \<Rightarrow> cell" where
  "get_favorite_item items =
     (if items = [] then Null
      else (case mode_values items of [] \<Rightarrow> Null | m # _ \<Rightarrow> m))"

text \<open>\<^verbatim>\<open>df[c] = df[c].fillna(0)\<close> and \<^verbatim>\<open>df[c] = df[c].astype(int)\<close> (on counts)\<close>

definition fill :: "cell \<Rightarrow> cell" where
  "fill c = (if isna c then Num 0 else c)"

definition fillna0 :: "string \<Rightarrow> frame \<Rightarrow> frame" where
  "fillna0 c df = df\<lparr>rws := map (\<lambda>r. r(c := fill (r c))) (rws df)\<rparr>"

definition to_int :: "cell \<Rightarrow> cell" where
  "to_int c =
     (case c of Num x \<Rightarrow> Num (of_int (if 0 \<le> x then \<lfloor>x\<rfloor> else \<lceil>x\<rceil>)) | _ \<Rightarrow> c)"

definition astype_int :: "string \<Rightarrow> frame \<Rightarrow> frame" where
  "astype_int c df = df\<lparr>rws := map (\<lambda>r. r(c := to_int (r c))) (rws df)\<rparr>"

definition num_of :: "cell \<Rightarrow> rat" where
  "num_of c = (case c of Num x \<Rightarrow> x | _ \<Rightarrow> 0)"

text \<open>
  A numeric column that comes to hold a missing value is kept as \<^verbatim>\<open>float64\<close>: in each
  of the columns \<open>cs\<close> that has a null, the other cells are converted.
\<close>

definition float_of :: "pandas \<Rightarrow> cell \<Rightarrow> cell" where
  "float_of pd c = (if isna c then c else as_float pd c)"

definition upcast :: "pandas \<Rightarrow> string list \<Rightarrow> row list \<Rightarrow> row list" where
  "upcast pd cs rs =
     map (\<lambda>r c. if c \<in> set cs \<and> list_ex (\<lambda>x. isna (x c)) rs then float_of pd (r c) else r c) rs"

text \<open>\<^verbatim>\<open>people_df[['user_id']]\<close>: the frame of that one column, or a key error.\<close>

definition select_user_id :: "frame \<Rightarrow> error + frame" where
  "select_user_id people_df =
     (if ''user_id'' \<in> set (columns people_df)
      then Inr \<lparr>columns = [''user_id''], rws = map (restrict_row [''user_id'']) (rws people_df)\<rparr>
      else Inl (KeyErrorNoneOf [''user_id'']))"

text \<open>
  \<^verbatim>\<open>pd.merge(left, right, on='user_id', how='left')\<close> for a \<^verbatim>\<open>left\<close> of the single
  column \<^verbatim>\<open>user_id\<close>. pandas first checks the two key columns against each other and
  may raise. Otherwise the result has every left row, in order, joined with each right
  row of the same user id (two nulls match), or alone when there is none; the columns
  \<open>counts\<close> of the right frame hold counts and keep their cells, the other columns of
  the right frame are converted where the join has left a null in them.
\<close>

definition join_rows :: "string list \<Rightarrow> row \<Rightarrow> row \<Rightarrow> row" where
  "join_rows cs l m = (\<lambda>c. if c = ''user_id'' then l c else restrict_row cs m c)"

definition joined :: "frame \<Rightarrow> frame \<Rightarrow> row list" where
  "joined left right =
     concat (map (\<lambda>l.
        (case filter (\<lambda>m. m ''user_id'' = l ''user_id'') (rws right) of
           [] \<Rightarrow> [l]
         | ms \<Rightarrow> map (join_rows (columns right) l) ms))
       (rws left))"

definition merge_left_user_id :: "pandas \<Rightarrow> string list \<Rightarrow> frame \<Rightarrow> frame \<Rightarrow> error + frame" where
  "merge_left_user_id pd counts left right =
     (case merge_check pd (col ''user_id'' left) (col ''user_id'' right) of
        Some e \<Rightarrow> Inl e
      | None \<Rightarrow>
          Inr \<lparr>columns = columns left @ filter (\<lambda>c. c \<notin> set (columns left)) (columns right),
               rws = upcast pd
                       (filter (\<lambda>c. c \<noteq> ''user_id'' \<and> c \<notin> set counts) (columns right))
                       (joined left right)\<rparr>)"

definition missing_columns :: "string list \<Rightarrow> frame \<Rightarrow> string list" where
  "missing_columns required_columns df = filter (\<lambda>c. c \<notin> set (columns df)) required_columns"

section \<open>UserTransactionsMerger\<close>

text \<open>Lines 361-369: the grouped aggregate, with \<^verbatim>\<open>user_id\<close> back as a column.\<close>

definition user_transactions_row :: "(cell \<times> cell) list \<Rightarrow> row list \<Rightarrow> cell \<Rightarrow> row" where
  "user_transactions_row total_spent rs k =
     (let g = group_rows ''user_id'' k rs
      in empty_row(''user_id'' := k,
           ''total_spent'' := value_at total_spent k,
           ''transaction_count'' := Num (of_nat (agg_nunique ''transaction_id'' g)),
           ''favorite_store'' := get_favorite_store (map (\<lambda>r. r ''store'') g),
           ''favorite_item'' := get_favorite_item (map (\<lambda>r. r ''item'') g)))"

definition user_transactions_agg :: "pandas \<Rightarrow> frame \<Rightarrow> error + frame" where
  "user_transactions_agg pd transactions_df =
     and_then (grouped_sum pd ''user_id'' ''price'' (rws transactions_df)) (\<lambda>total_spent.
     Inr \<lparr>columns = [''user_id'', ''total_spent'', ''transaction_count'', ''favorite_store'',
                      ''favorite_item''],
          rws = map (user_transactions_row total_spent (rws transactions_df))
                  (group_keys ''user_id'' (rws transactions_df))\<rparr>)"

text \<open>Lines 360-380: what the \<^verbatim>\<open>try\<close> block does once the required columns are there.\<close>

definition user_transactions_try :: "pandas \<Rightarrow> frame \<Rightarrow> frame \<Rightarrow> error + frame" where
  "user_transactions_try pd transactions_df people_df =
     and_then (user_transactions_agg pd transactions_df) (\<lambda>aggregated_df.
     and_then (select_user_id people_df) (\<lambda>ids.
     and_then (merge_left_user_id pd [''transaction_count''] ids aggregated_df) (\<lambda>result_df.
     Inr (astype_int ''transaction_count''
            (fillna0 ''transaction_count'' (fillna0 ''total_spent'' result_df))))))"

text \<open>\<^verbatim>\<open>UserTransactionsMerger.merge\<close> (lines 343-386)\<close>

definition UserTransactionsMerger_merge ::
  "pandas \<Rightarrow> frame \<Rightarrow> frame \<Rightarrow> string list \<Rightarrow> (string \<times> frame) list \<times> string list" where
  "UserTransactionsMerger_merge pd transactions_df people_df merge_errors =
     (let required_columns = [''user_id'', ''transaction_id'', ''price'', ''item'', ''store'']
      in if \<not> list_all (\<lambda>c. c \<in> set (columns transactions_df)) required_columns
         then ([(''user_transactions'', DataFrame_empty)],
               add_error (''Missing required columns for user transactions summary: ''
                            @ str_list (missing_columns required_columns transactions_df))
                 merge_errors)
         else
           (case user_transactions_try pd transactions_df people_df of
              Inr result_df \<Rightarrow> ([(''user_transactions'', result_df)], merge_errors)
            | Inl e \<Rightarrow>
                ([(''user_transactions'', DataFrame_empty)],
                 add_error (''Unexpected error in user transactions merging: '' @ str_error e)
                   merge_errors)))"

section \<open>UserTransfersMerger\<close>

text \<open>
  Lines 437-448: the table of the users that occur as a sender or a recipient, one row
  for each element of \<^verbatim>\<open>all_user_ids\<close>. \<^verbatim>\<open>.map(series)\<close> leaves a null where the
  series has no entry, which makes the column \<^verbatim>\<open>float64\<close>, and \<^verbatim>\<open>fillna(0)\<close> follows.
\<close>

definition user_transfers_row ::
  "(cell \<times> cell) list \<Rightarrow> (cell \<times> cell) list \<Rightarrow> (cell \<times> cell) list \<Rightarrow> (cell \<times> cell) list
     \<Rightarrow> (cell \<times> cell) list \<Rightarrow> cell \<Rightarrow> row" where
  "user_transfers_row sent_total sent_count received_total received_count net_transferred
       user_id =
     empty_row(''user_id'' := user_id,
       ''total_sent'' := value_at sent_total user_id,
       ''total_received'' := value_at received_total user_id,
       ''net_transferred'' := value_at net_transferred user_id,
       ''sent_count'' := to_int (fill (value_at sent_count user_id)),
       ''received_count'' := to_int (fill (value_at received_count user_id)),
       ''transfer_count'' :=
          Num (num_of (to_int (fill (value_at sent_count user_id)))
               + num_of (to_int (fill (value_at received_count user_id)))))"

definition user_transfers_table ::
  "pandas \<Rightarrow> (cell \<times> cell) list \<Rightarrow> (cell \<times> cell) list \<Rightarrow> (cell \<times> cell) list
     \<Rightarrow> (cell \<times> cell) list \<Rightarrow> (cell \<times> cell) list \<Rightarrow> cell list \<Rightarrow> frame" where
  "user_transfers_table pd sent_total sent_count received_total received_count net_transferred
       all_user_ids =
     fold fillna0 [''total_sent'', ''total_received'', ''net_transferred'']
       \<lparr>columns = [''user_id'', ''total_sent'', ''total_received'', ''net_transferred'',
                   ''sent_count'', ''received_count'', ''transfer_count''],
        rws = upcast pd [''total_sent'', ''total_received'', ''net_transferred'']
                (map (user_transfers_row sent_total sent_count received_total received_count
                        net_transferred)
                   all_user_ids)\<rparr>"

text \<open>Lines 421-460: the \<^verbatim>\<open>try\<close> block once the required columns are there.\<close>

definition user_transfers_try :: "pandas \<Rightarrow> frame \<Rightarrow> frame \<Rightarrow> error + frame" where
  "user_transfers_try pd transfers_df people_df =
     (let rs = rws transfers_df
      in and_then (grouped_sum pd ''sender_id'' ''amount'' rs) (\<lambda>sent_total.
         and_then (grouped_sum pd ''recipient_id'' ''amount'' rs) (\<lambda>received_total.
         (let sent_count = grouped_nunique ''sender_id'' ''transfer_id'' rs;
              received_count = grouped_nunique ''recipient_id'' ''transfer_id'' rs;
              all_user_ids = set_union pd (col ''sender_id'' transfers_df)
                               (col ''recipient_id'' transfers_df)
          in and_then (series (\<lambda>user_id. subtract pd (get0 received_total user_id)
                                            (get0 sent_total user_id))
                         all_user_ids) (\<lambda>net_transferred.
             (let result_df = user_transfers_table pd sent_total sent_count received_total
                                received_count net_transferred all_user_ids
              in and_then (select_user_id people_df) (\<lambda>ids.
                 and_then (merge_left_user_id pd
                             [''sent_count'', ''received_count'', ''transfer_count'']
                             ids result_df) (\<lambda>result_df.
                 Inr (fold (\<lambda>c df. astype_int c (fillna0 c df))
                        [''sent_count'', ''received_count'', ''transfer_count'']
                        (fold fillna0 [''total_sent'', ''total_received'', ''net_transferred'']
                           result_df))))))))))"

text \<open>\<^verbatim>\<open>UserTransfersMerger.merge\<close> (lines 404-468)\<close>

definition UserTransfersMerger_merge ::
  "pandas \<Rightarrow> frame \<Rightarrow> frame \<Rightarrow> string list \<Rightarrow> (string \<times> frame) list \<times> string list" where
  "UserTransfersMerger_merge pd transfers_df people_df merge_errors =
     (let required_columns = [''transfer_id'', ''sender_id'', ''recipient_id'', ''amount'']
      in if \<not> list_all (\<lambda>c. c \<in> set (columns transfers_df)) required_columns
         then ([(''user_transfers'', DataFrame_empty)],
               add_error (''Missing required columns for user transfers summary: ''
                            @ str_list (missing_columns required_columns transfers_df))
                 merge_errors)
         else
           (case user_transfers_try pd transfers_df people_df of
              Inr result_df \<Rightarrow> ([(''user_transfers'', result_df)], merge_errors)
            | Inl e \<Rightarrow>
                ([(''user_transfers'', DataFrame_empty)],
                 add_error (''Unexpected error in user transfers merging: '' @ str_error e)
                   merge_errors)))"

section \<open>ItemSummaryMerger\<close>

definition item_summary_row ::
  "(cell \<times> cell) list \<Rightarrow> (cell \<times> cell) list \<Rightarrow> (cell \<times> cell) list \<Rightarrow> row list \<Rightarrow> cell
     \<Rightarrow> row" where
  "item_summary_row total_revenue items_sold average_price rs k =
     empty_row(''item'' := k,
       ''total_revenue'' := value_at total_revenue k,
       ''items_sold'' := value_at items_sold k,
       ''transaction_count'' :=
          Num (of_nat (agg_nunique ''transaction_id'' (group_rows ''item'' k rs))),
       ''average_price'' := value_at average_price k)"

text \<open>
  Lines 501-512: the grouped sums, then the column of the quotients (line 509), then its
  rounding, each over all items before the next begins.
\<close>

definition item_summary_try :: "pandas \<Rightarrow> frame \<Rightarrow> error + frame" where
  "item_summary_try pd transactions_df =
     (let rs = rws transactions_df; items = group_keys ''item'' rs
      in and_then (grouped_sum pd ''item'' ''price'' rs) (\<lambda>total_revenue.
         and_then (grouped_sum pd ''item'' ''quantity'' rs) (\<lambda>items_sold.
         and_then (series (\<lambda>k. true_divide pd (value_at total_revenue k) (value_at items_sold k)) items)
           (\<lambda>quotient.
         and_then (series (\<lambda>k. round_2 pd (value_at quotient k)) items) (\<lambda>average_price.
         Inr \<lparr>columns = [''item'', ''total_revenue'', ''items_sold'', ''transaction_count'',
                          ''average_price''],
              rws = map (item_summary_row total_revenue items_sold average_price rs)
                      items\<rparr>)))))"

text \<open>\<^verbatim>\<open>ItemSummaryMerger.merge\<close> (lines 484-522)\<close>

definition ItemSummaryMerger_merge ::
  "pandas \<Rightarrow> frame \<Rightarrow> string list \<Rightarrow> (string \<times> frame) list \<times> string list" where
  "ItemSummaryMerger_merge pd transactions_df merge_errors =
     (let required_columns = [''item'', ''price'', ''quantity'', ''transaction_id'']
      in if \<not> list_all (\<lambda>c. c \<in> set (columns transactions_df)) required_columns
         then ([(''item_summary'', DataFrame_empty)],
               add_error (''Missing required columns for item summary: ''
                            @ str_list (missing_columns required_columns transactions_df))
                 merge_errors)
         else
           (case item_summary_try pd transactions_df of
              Inr aggregated_df \<Rightarrow> ([(''item_summary'', aggregated_df)], merge_errors)
            | Inl e \<Rightarrow>
                ([(''item_summary'', DataFrame_empty)],
                 add_error (''Unexpected error in item summary merging: '' @ str_error e)
                   merge_errors)))"

section \<open>StoreSummaryMerger\<close>

text \<open>\<^verbatim>\<open>StoreSummaryMerger._get_most_sold_item\<close> (lines 538-553)\<close>

definition get_most_sold_item :: "pandas \<Rightarrow> row list \<Rightarrow> cell \<Rightarrow> error + cell" where
  "get_most_sold_item pd rs store =
     (let store_data = filter (\<lambda>r. r ''store'' = store \<and> notna store) rs
      in if store_data = [] then Inr Null
         else and_then (grouped_sum pd ''item'' ''quantity'' store_data) (\<lambda>item_qty.
              if item_qty = [] then Inr Null else idx_max pd item_qty))"

text \<open>\<^verbatim>\<open>StoreSummaryMerger._get_most_profitable_item\<close> (lines 555-570)\<close>

definition get_most_profitable_item :: "pandas \<Rightarrow> row list \<Rightarrow> cell \<Rightarrow> error + cell" where
  "get_most_profitable_item pd rs store =
     (let store_data = filter (\<lambda>r. r ''store'' = store \<and> notna store) rs
      in if store_data = [] then Inr Null
         else and_then (grouped_sum pd ''item'' ''price'' store_data) (\<lambda>item_revenue.
              if item_revenue = [] then Inr Null else idx_max pd item_revenue))"

text \<open>Lines 604-609: the two lists are filled store by store.\<close>

definition most_items :: "pandas \<Rightarrow> row list \<Rightarrow> cell list \<Rightarrow> error + (cell \<times> cell) list" where
  "most_items pd rs stores =
     collect (map (\<lambda>store.
        and_then (get_most_sold_item pd rs store) (\<lambda>sold.
        and_then (get_most_profitable_item pd rs store) (\<lambda>profitable.
        Inr (sold, profitable))))
       stores)"

definition store_summary_row ::
  "(cell \<times> cell) list \<Rightarrow> (cell \<times> cell) list \<Rightarrow> (cell \<times> cell) list
     \<Rightarrow> (cell \<times> cell \<times> cell) list \<Rightarrow> row list \<Rightarrow> cell \<Rightarrow> row" where
  "store_summary_row total_revenue items_sold average items rs k =
     empty_row(''store'' := k,
       ''total_revenue'' := value_at total_revenue k,
       ''items_sold'' := value_at items_sold k,
       ''total_transactions'' :=
          Num (of_nat (agg_nunique ''transaction_id'' (group_rows ''store'' k rs))),
       ''average_transaction_value'' := value_at average k,
       ''most_sold_item'' := (case map_of items k of Some (s, p) \<Rightarrow> s | None \<Rightarrow> Null),
       ''most_profitable_item'' := (case map_of items k of Some (s, p) \<Rightarrow> p | None \<Rightarrow> Null))"

text \<open>Lines 589-615\<close>

definition store_summary_try :: "pandas \<Rightarrow> frame \<Rightarrow> error + frame" where
  "store_summary_try pd transactions_df =
     (let rs = rws transactions_df; stores = group_keys ''store'' rs
      in and_then (grouped_sum pd ''store'' ''price'' rs) (\<lambda>total_revenue.
         and_then (grouped_sum pd ''store'' ''quantity'' rs) (\<lambda>items_sold.
         and_then (series (\<lambda>k. true_divide pd (value_at total_revenue k)
                                  (value_at (grouped_nunique ''store'' ''transaction_id'' rs) k))
                     stores) (\<lambda>quotient.
         and_then (series (\<lambda>k. round_2 pd (value_at quotient k)) stores) (\<lambda>average.
         and_then (most_items pd rs stores) (\<lambda>items.
         Inr \<lparr>columns = [''store'', ''total_revenue'', ''items_sold'', ''total_transactions'',
                          ''average_transaction_value'', ''most_sold_item'',
                          ''most_profitable_item''],
              rws = map (store_summary_row total_revenue items_sold average (zip stores items)
                           rs)
                      stores\<rparr>))))))"

text \<open>\<^verbatim>\<open>StoreSummaryMerger.merge\<close> (lines 572-625)\<close>

definition StoreSummaryMerger_merge ::
  "pandas \<Rightarrow> frame \<Rightarrow> string list \<Rightarrow> (string \<times> frame) list \<times> string list" where
  "StoreSummaryMerger_merge pd transactions_df merge_errors =
     (let required_columns = [''store'', ''item'', ''price'', ''quantity'', ''transaction_id'']
      in if \<not> list_all (\<lambda>c. c \<in> set (columns transactions_df)) required_columns
         then ([(''store_summary'', DataFrame_empty)],
               add_error (''Missing required columns for store summary: ''
                            @ str_list (missing_columns required_columns transactions_df))
                 merge_errors)
         else
           (case store_summary_try pd transactions_df of
              Inr aggregated_df \<Rightarrow> ([(''store_summary'', aggregated_df)], merge_errors)
            | Inl e \<Rightarrow>
                ([(''store_summary'', DataFrame_empty)],
                 add_error (''Unexpected error in store summary merging: '' @ str_error e)
                   merge_errors)))"

section \<open>PeopleMerger\<close>

text \<open>
  \<^verbatim>\<open>PeopleMerger\<close> keeps references to the caller's two data frames and writes to them,
  so its model has a store: a data frame object is a reference, and the heap maps a
  reference to the frame it holds at the moment. The frames are the raw person tables.
\<close>

type_synonym ref = nat

type_synonym heap = "ref \<Rightarrow> raw_frame"

text \<open>
  Lines 113-114: \<^verbatim>\<open>set(df['user_id'])\<close> raises on a cell that is a list, which cannot
  be hashed.
\<close>

definition ids_hashable :: "raw_frame \<Rightarrow> bool" where
  "ids_hashable df =
     (if ''user_id'' \<in> set (columns df) then \<not> list_ex is_list (col ''user_id'' df) else True)"

text \<open>
  Lines 127-132: \<^verbatim>\<open>df[col] = None\<close> for every missing common column, on the object
  the reference denotes.
\<close>

definition raw_set_column_None :: "string \<Rightarrow> raw_frame \<Rightarrow> raw_frame" where
  "raw_set_column_None c df =
     \<lparr>columns = (if c \<in> set (columns df) then columns df else columns df @ [c]),
      rws = map (\<lambda>r. r(c := Scalar Null)) (rws df)\<rparr>"

definition add_missing_columns_in_place :: "ref \<Rightarrow> heap \<Rightarrow> heap" where
  "add_missing_columns_in_place df h =
     h(df := fold raw_set_column_None
               (filter (\<lambda>c. c \<notin> set (columns (h df))) common_columns) (h df))"

text \<open>
  \<^verbatim>\<open>PeopleMerger.merge\<close> (lines 102-152). \<^verbatim>\<open>pd.merge(..., on=common_columns,
  how='outer', suffixes=('_json', '_yml'))\<close> is pandas' and a parameter here: a function
  of the two frames that returns the joined frame or raises, and touches no object.
\<close>

definition PeopleMerger_merge ::
  "(raw_frame \<Rightarrow> raw_frame \<Rightarrow> error + raw_frame) \<Rightarrow> ref \<Rightarrow> ref \<Rightarrow> string list \<Rightarrow> heap
     \<Rightarrow> ((string \<times> raw_frame) list \<times> string list) \<times> heap" where
  "PeopleMerger_merge pd_merge_outer people_json_df people_yml_df merge_errors h =
     (if \<not> (ids_hashable (h people_json_df) \<and> ids_hashable (h people_yml_df))
      then (([(''people'', DataFrame_empty)],
             add_error (''Unexpected error in people data merging: ''
                          @ str_error TypeErrorUnhashable) merge_errors), h)
      else
        (let h = add_missing_columns_in_place people_json_df h;
             h = add_missing_columns_in_place people_yml_df h
         in case pd_merge_outer (h people_json_df) (h people_yml_df) of
              Inr merged_df \<Rightarrow> (([(''people'', merged_df)], merge_errors), h)
            | Inl e \<Rightarrow>
                (([(''people'', DataFrame_empty)],
                  add_error (''Unexpected error in people data merging: '' @ str_error e)
                    merge_errors), h)))"



section \<open>Example tables\<close>

text \<open>Small person tables for the worked examples.\<close>

definition person :: "rat \<Rightarrow> string \<Rightarrow> row" where
  "person u city = empty_row(''user_id'' := Num u, ''city'' := Str city)"

definition people_frame :: "row list \<Rightarrow> frame" where
  "people_frame rs = \<lparr>columns = [''user_id'', ''city''], rws = rs\<rparr>"

text \<open>A table of scalar cells as a raw person table.\<close>

definition raw_table :: "frame \<Rightarrow> raw_frame" where
  "raw_table df = \<lparr>columns = columns df, rws = map (\<lambda>r c. Scalar (r c)) (rws df)\<rparr>"

text \<open>A raw person table with a list of devices.\<close>

definition with_devices :: raw_frame where
  "with_devices =
     \<lparr>columns = [''user_id'', ''devices''],
      rws = [(\<lambda>c. Scalar Null)(''user_id'' := Scalar (Num 1),
                                  ''devices'' := Lst [''Android'', ''Desktop''])]\<rparr>"



text \<open>
  A promotion whose email is that of user 5 and whose telephone is that of user 9, and a
  transaction line with the phone of user 9; neither table has a \<^verbatim>\<open>user_id\<close> column.
\<close>

definition promo_unresolved :: frame where
  "promo_unresolved =
     \<lparr>columns = [''id'', ''client_email'', ''telephone''],
      rws = [empty_row(''id'' := Num 1, ''client_email'' := Str ''e5@x.org'',
                       ''telephone'' := Str ''555-0009'')]\<rparr>"

definition tx_unresolved :: frame where
  "tx_unresolved =
     \<lparr>columns = [''transaction_id'', ''phone'', ''item''],
      rws = [empty_row(''transaction_id'' := Num 100, ''phone'' := Str ''555-0009'',
                       ''item'' := Str ''tea'')]\<rparr>"


text \<open>A people table without the \<^verbatim>\<open>user_id\<close> column.\<close>

definition people_no_id :: frame where
  "people_no_id =
     \<lparr>columns = [''email'', ''phone''],
      rws = [empty_row(''email'' := Str ''e5@x.org'', ''phone'' := Str ''555-0005'')]\<rparr>"

text \<open>
  A store with two data frame objects: at reference 0 a person table with the columns
  \<^verbatim>\<open>user_id\<close> and \<^verbatim>\<open>city\<close> only, at reference 1 another.
\<close>

definition two_tables :: heap where
  "two_tables = (\<lambda>r. DataFrame_empty)(0 := raw_table (people_frame [person 1 ''A'']),
                                        1 := raw_table (people_frame [person 2 ''B'']))"

text \<open>Transaction lines.\<close>

definition line :: "rat \<Rightarrow> cell \<Rightarrow> string \<Rightarrow> string \<Rightarrow> rat \<Rightarrow> rat \<Rightarrow> row" where
  "line tid uid item store price quantity =
     empty_row(''transaction_id'' := Num tid, ''user_id'' := uid, ''item'' := Str item,
               ''store'' := Str store, ''price'' := Num price, ''quantity'' := Num quantity)"

definition transactions_frame :: "row list \<Rightarrow> frame" where
  "transactions_frame rs =
     \<lparr>columns = [''transaction_id'', ''user_id'', ''item'', ''store'', ''price'', ''quantity''],
      rws = rs\<rparr>"



text \<open>
  One purchase, transaction 100, of user 1 at one store, split over three lines (tea,
  coffee, tea again); and the people table of users 1 and 2.
\<close>

definition tx_split :: frame where
  "tx_split = transactions_frame
     [line 100 (Num 1) ''tea'' ''shop'' 10 1, line 100 (Num 1) ''coffee'' ''shop'' 5 1,
      line 100 (Num 1) ''tea'' ''shop'' 10 2]"

definition two_people :: frame where
  "two_people = people_frame [person 1 ''A'', person 2 ''B'']"

text \<open>Transfers: user 1 sends 50 to user 2, and user 2 sends 20 to user 1.\<close>

definition transfer :: "rat \<Rightarrow> cell \<Rightarrow> cell \<Rightarrow> cell \<Rightarrow> row" where
  "transfer tid sender recipient amount =
     empty_row(''transfer_id'' := Num tid, ''sender_id'' := sender,
               ''recipient_id'' := recipient, ''amount'' := amount)"

definition transfers_frame :: "row list \<Rightarrow> frame" where
  "transfers_frame rs =
     \<lparr>columns = [''transfer_id'', ''sender_id'', ''recipient_id'', ''amount''], rws = rs\<rparr>"

definition transfers_back_and_forth :: frame where
  "transfers_back_and_forth =
     transfers_frame [transfer 1 (Num 1) (Num 2) (Num 50), transfer 2 (Num 2) (Num 1) (Num 20)]"

text \<open>The same two transfers with an amount that is infinite (\<^verbatim>\<open>float('inf')\<close>).\<close>

definition transfers_infinite :: frame where
  "transfers_infinite =
     transfers_frame [transfer 1 (Num 1) (Num 2) PosInf, transfer 2 (Num 2) (Num 1) PosInf]"

text \<open>
  Two lines of tea at one store: transaction 1 of user 1, and transaction 2 whose user
  was not resolved.
\<close>

definition tx_unknown_user :: frame where
  "tx_unknown_user = transactions_frame
     [line 1 (Num 1) ''tea'' ''shop'' 10 1, line 2 Null ''tea'' ''shop'' 7 2]"

text \<open>A transfer of 50 from user 1 to user 3.\<close>

definition transfers_to_stranger :: frame where
  "transfers_to_stranger = transfers_frame [transfer 1 (Num 1) (Num 3) (Num 50)]"

text \<open>Transactions without the \<^verbatim>\<open>store\<close> column.\<close>

definition tx_no_store :: frame where
  "tx_no_store =
     \<lparr>columns = [''transaction_id'', ''user_id'', ''item'', ''price'', ''quantity''],
      rws = [line 1 (Num 1) ''tea'' ''shop'' 10 1]\<rparr>"

section \<open>A pandas for the examples\<close>

text \<open>
  The worked examples need values for the operations of pandas. On the numbers of the
  examples (small whole numbers, halves, and the infinities) floating point is exact,
  and the record below computes what pandas does there: sums skip nulls, a number over
  zero is an infinity of its sign and 0/0 is NaN, the difference of two equal infinities
  is NaN, \<^verbatim>\<open>round(2)\<close> goes to the nearest hundredth, nothing raises, and a Python set
  keeps equal ids once. Nothing is proved from it about other numbers.
\<close>

fun plus_cell :: "cell \<Rightarrow> cell \<Rightarrow> cell" where
  "plus_cell (Num a) (Num b) = Num (a + b)"
| "plus_cell PosInf NegInf = Null"
| "plus_cell NegInf PosInf = Null"
| "plus_cell PosInf (Num b) = PosInf"
| "plus_cell PosInf PosInf = PosInf"
| "plus_cell (Num a) PosInf = PosInf"
| "plus_cell NegInf (Num b) = NegInf"
| "plus_cell NegInf NegInf = NegInf"
| "plus_cell (Num a) NegInf = NegInf"
| "plus_cell x y = Null"

fun negate :: "cell \<Rightarrow> cell" where
  "negate (Num a) = Num (- a)"
| "negate PosInf = NegInf"
| "negate NegInf = PosInf"
| "negate x = Null"

fun divide_cell :: "cell \<Rightarrow> cell \<Rightarrow> cell" where
  "divide_cell (Num a) (Num b) =
     (if b \<noteq> 0 then Num (a / b)
      else if 0 < a then PosInf else if a < 0 then NegInf else Null)"
| "divide_cell x y = Null"

definition rint :: "rat \<Rightarrow> int" where
  "rint x =
     (let f = \<lfloor>x\<rfloor>; d = x - of_int f
      in if d < 1 / 2 then f else if 1 / 2 < d then f + 1 else if even f then f else f + 1)"

definition round_cell :: "cell \<Rightarrow> cell" where
  "round_cell c = (case c of Num x \<Rightarrow> Num (of_int (rint (x * 100)) / 100) | _ \<Rightarrow> c)"

fun idxmax_from :: "cell \<times> cell \<Rightarrow> (cell \<times> cell) list \<Rightarrow> cell" where
  "idxmax_from best [] = fst best"
| "idxmax_from best (kv # kvs) =
     idxmax_from (if num_of (snd best) < num_of (snd kv) then kv else best) kvs"

definition exact_pandas :: pandas where
  "exact_pandas =
     \<lparr>reduce_sum = (\<lambda>cs. Inr (foldl plus_cell (Num 0) (filter notna cs))),
      true_divide = (\<lambda>a b. Inr (divide_cell a b)),
      subtract = (\<lambda>a b. Inr (plus_cell a (negate b))),
      round_2 = (\<lambda>c. Inr (round_cell c)),
      idx_max = (\<lambda>s. Inr (case s of [] \<Rightarrow> Null | kv # kvs \<Rightarrow> idxmax_from kv kvs)),
      as_float = (\<lambda>c. c),
      merge_check = (\<lambda>left right. None),
      set_union = (\<lambda>a b. remdups (a @ b))\<rparr>"

section \<open>Unfolding the model on the example tables\<close>

text \<open>The defining equations that evaluate each merger on the example tables.\<close>

lemmas frame_defs = prepared_def add_missing_columns_def convert_list_columns_def
  set_column_None_def common_columns_def list_to_string_def user_ids_def col_def empty_row_def
  person_def people_frame_def raw_table_def table_def MainDataMerger_merge_def pd_concat_def
  drop_duplicates_def restrict_row_def DataFrame_empty_def


lemmas raise_defs = UserReferencesMerger_try_def
  add_user_references_to_promotions_def add_user_references_to_transactions_def
  resolve_by_email_def resolve_by_telephone_def resolve_by_phone_def to_dict_def
  set_column_None_def people_no_id_def promo_unresolved_def tx_unresolved_def

lemmas heap_defs = PeopleMerger_merge_def ids_hashable_def add_missing_columns_in_place_def
  raw_set_column_None_def common_columns_def col_def is_list_def
  two_tables_def raw_table_def people_frame_def person_def empty_row_def

lemmas pandas_defs = exact_pandas_def and_then_def series_def value_at_def get0_def
  grouped_sum_def grouped_nunique_def agg_nunique_def group_rows_def group_keys_def
  sort_cells_def notna_def isna_def empty_row_def num_of_def fill_def to_int_def
  round_cell_def rint_def table_def col_def user_ids_def

lemmas user_transactions_defs = UserTransactionsMerger_merge_def user_transactions_try_def
  select_user_id_def user_transactions_agg_def user_transactions_row_def get_favorite_store_def
  get_favorite_item_def mode_values_def merge_left_user_id_def joined_def upcast_def
  float_of_def join_rows_def restrict_row_def fillna0_def astype_int_def line_def
  transactions_frame_def two_people_def people_frame_def person_def

lemmas item_summary_defs = ItemSummaryMerger_merge_def item_summary_try_def
  item_summary_row_def line_def transactions_frame_def

lemmas store_summary_defs = StoreSummaryMerger_merge_def store_summary_try_def
  store_summary_row_def most_items_def get_most_sold_item_def get_most_profitable_item_def
  line_def transactions_frame_def

lemmas user_transfers_defs = UserTransfersMerger_merge_def user_transfers_try_def
  select_user_id_def user_transfers_table_def user_transfers_row_def merge_left_user_id_def
  joined_def upcast_def float_of_def join_rows_def restrict_row_def fillna0_def astype_int_def
  transfer_def transfers_frame_def two_people_def people_frame_def person_def

section \<open>The outputs of the top-level merge\<close>

text \<open>
  Claim C1. The spec has the top-level merge return every output table: people,
  promotions, transactions, user_transactions, user_transfers, item_summary and
  store_summary. \<^verbatim>\<open>MainDataMerger.merge\<close> returns a dictionary whose only key is
  \<^verbatim>\<open>people\<close>, whatever its promotions, transfers and transactions are, and it records
  no error: none of the six other tables is ever produced.
\<close>

theorem MainDataMerger_merge_only_people:
  "map fst (fst (MainDataMerger_merge pj py promotions transfers transactions errs)) = [''people'']
   \<and> map_of (fst (MainDataMerger_merge pj py promotions transfers transactions errs)) ''promotions'' = None
   \<and> map_of (fst (MainDataMerger_merge pj py promotions transfers transactions errs)) ''user_transfers'' = None
   \<and> snd (MainDataMerger_merge pj py promotions transfers transactions errs) = errs"
  by (simp add: MainDataMerger_merge_def Let_def)


section \<open>Identity reconciliation\<close>

lemma drop_dups_keys:
  "set (map (\<lambda>r. r k) (drop_dups k seen rs)) = set (map (\<lambda>r. r k) rs) - set seen"
  by (induction rs arbitrary: seen) auto

lemma drop_dups_mem:
  "x \<in> set (drop_dups k seen rs) \<Longrightarrow> x k \<notin> set seen \<and> x \<in> set rs"
proof (induction rs arbitrary: seen)
  case Nil
  then show ?case by simp
next
  case (Cons a rs)
  show ?case
  proof (cases "a k \<in> set seen")
    case True
    with Cons.prems have "x \<in> set (drop_dups k seen rs)" by simp
    from Cons.IH [OF this] show ?thesis by simp
  next
    case False
    with Cons.prems have "x = a \<or> x \<in> set (drop_dups k (a k # seen) rs)" by simp
    then show ?thesis
    proof
      assume "x = a"
      with False show ?thesis by simp
    next
      assume "x \<in> set (drop_dups k (a k # seen) rs)"
      from Cons.IH [OF this] show ?thesis by simp
    qed
  qed
qed

lemma drop_dups_distinct: "distinct (map (\<lambda>r. r k) (drop_dups k seen rs))"
proof (induction rs arbitrary: seen)
  case Nil
  then show ?case by simp
next
  case (Cons a rs)
  have "\<And>x. x \<in> set (drop_dups k (a k # seen) rs) \<Longrightarrow> x k \<noteq> a k"
  proof -
    fix x assume "x \<in> set (drop_dups k (a k # seen) rs)"
    from drop_dups_mem [OF this] show "x k \<noteq> a k" by simp
  qed
  then have "a k \<notin> (\<lambda>r. r k) ` set (drop_dups k (a k # seen) rs)" by force
  with Cons.IH show ?case by simp
qed

lemma drop_dups_cong: "set s = set s' \<Longrightarrow> drop_dups k s rs = drop_dups k s' rs"
proof (induction rs arbitrary: s s')
  case Nil
  then show ?case by simp
next
  case (Cons r rs)
  have mem: "r k \<in> set s \<longleftrightarrow> r k \<in> set s'"
    by (simp only: Cons.prems)
  have "set (r k # s) = set (r k # s')"
    by (simp only: list.set Cons.prems)
  from Cons.IH [OF this] Cons.IH [OF Cons.prems] mem show ?case by simp
qed

lemma drop_dups_append:
  "drop_dups k seen (xs @ ys) =
     drop_dups k seen xs @ drop_dups k (map (\<lambda>r. r k) xs @ seen) ys"
proof (induction xs arbitrary: seen)
  case Nil
  then show ?case by simp
next
  case (Cons r xs)
  show ?case
  proof (cases "r k \<in> set seen")
    case True
    have "drop_dups k (map (\<lambda>r. r k) (r # xs) @ seen) ys = drop_dups k (map (\<lambda>r. r k) xs @ seen) ys"
      using True by (intro drop_dups_cong) auto
    with True Cons.IH [of seen] show ?thesis by simp
  next
    case False
    have "drop_dups k (map (\<lambda>r. r k) (r # xs) @ seen) ys = drop_dups k (map (\<lambda>r. r k) xs @ r k # seen) ys"
      by (intro drop_dups_cong) auto
    with False Cons.IH [of "r k # seen"] show ?thesis by simp
  qed
qed

lemma drop_dups_id:
  "distinct (map (\<lambda>r. r k) xs) \<Longrightarrow> set (map (\<lambda>r. r k) xs) \<inter> set seen = {} \<Longrightarrow> drop_dups k seen xs = xs"
  by (induction xs arbitrary: seen) auto

lemma drop_dups_length:
  "length (drop_dups k seen rs) = card (set (map (\<lambda>r. r k) rs) - set seen)"
proof -
  have "length (drop_dups k seen rs) = length (map (\<lambda>r. r k) (drop_dups k seen rs))" by simp
  also have "\<dots> = card (set (map (\<lambda>r. r k) (drop_dups k seen rs)))"
    using drop_dups_distinct [of k seen rs] by (simp only: distinct_card)
  finally show ?thesis by (simp only: drop_dups_keys)
qed


lemma find_drop_dups:
  "u \<notin> set seen \<Longrightarrow> find (\<lambda>r. r k = u) (drop_dups k seen rs) = find (\<lambda>r. r k = u) rs"
proof (induction rs arbitrary: seen)
  case Nil
  then show ?case by simp
next
  case (Cons r rs)
  show ?case
  proof (cases "r k \<in> set seen")
    case True
    with Cons.prems have "r k \<noteq> u" by blast
    with True Cons.IH [OF Cons.prems] show ?thesis by simp
  next
    case False
    show ?thesis
    proof (cases "r k = u")
      case True
      with False show ?thesis by simp
    next
      case ne: False
      with Cons.prems have "u \<notin> set (r k # seen)" by auto
      from Cons.IH [OF this] False ne show ?thesis by simp
    qed
  qed
qed

lemma find_append:
  "find Q (xs @ ys) = (case find Q xs of None \<Rightarrow> find Q ys | Some x \<Rightarrow> Some x)"
  by (induction xs) simp_all

lemma find_None_keys: "u \<notin> set (map (\<lambda>r. r k) xs) \<Longrightarrow> find (\<lambda>r. r k = u) xs = None"
  by (induction xs) auto

lemma find_Some_keys: "u \<in> set (map (\<lambda>r. r k) xs) \<Longrightarrow> \<exists>x. find (\<lambda>r. r k = u) xs = Some x"
  by (induction xs) auto

lemma columns_fold_set_column_None:
  "set (columns (fold set_column_None cs df)) = set (columns df) \<union> set cs"
  by (induction cs arbitrary: df) (auto simp: set_column_None_def)

lemma length_fold_set_column_None:
  "length (rws (fold set_column_None cs df)) = length (rws df)"
  by (induction cs arbitrary: df) (auto simp: set_column_None_def)

lemma restricted_fold_set_column_None:
  "\<forall>r \<in> set (rws df). restrict_row (columns df) r = r \<Longrightarrow>
     \<forall>r \<in> set (rws (fold set_column_None cs df)).
        restrict_row (columns (fold set_column_None cs df)) r = r"
proof (induction cs arbitrary: df)
  case Nil
  then show ?case by simp
next
  case (Cons c cs)
  have "\<forall>r \<in> set (rws (set_column_None c df)). restrict_row (columns (set_column_None c df)) r = r"
  proof
    fix r assume "r \<in> set (rws (set_column_None c df))"
    then obtain r0 where r0: "r0 \<in> set (rws df)" and r: "r = r0(c := Null)"
      by (auto simp: set_column_None_def)
    from Cons.prems r0 have "restrict_row (columns df) r0 = r0" by blast
    then have "\<And>x. x \<notin> set (columns df) \<Longrightarrow> r0 x = Null"
      by (metis restrict_row_def)
    then show "restrict_row (columns (set_column_None c df)) r = r"
      by (auto simp: restrict_row_def set_column_None_def r fun_eq_iff)
  qed
  from Cons.IH [OF this] show ?case by simp
qed

lemma common_columns_prepared: "set common_columns \<subseteq> set (columns (prepared df))"
  by (auto simp: prepared_def add_missing_columns_def columns_fold_set_column_None)

lemma user_id_prepared: "''user_id'' \<in> set (columns (prepared df))"
  using common_columns_prepared [of df] by (auto simp: common_columns_def)

lemma length_prepared: "length (rws (prepared df)) = length (rws df)"
  by (simp add: prepared_def add_missing_columns_def convert_list_columns_def
      length_fold_set_column_None)

text \<open>A row of a prepared table is null outside the columns of the table.\<close>

lemma prepared_restricted:
  "map (restrict_row (columns (prepared df))) (rws (prepared df)) = rws (prepared df)"
proof -
  have "\<forall>r \<in> set (rws (convert_list_columns df)). restrict_row (columns (convert_list_columns df)) r = r"
    by (auto simp: convert_list_columns_def restrict_row_def fun_eq_iff)
  then have "\<forall>r \<in> set (rws (prepared df)). restrict_row (columns (prepared df)) r = r"
    unfolding prepared_def add_missing_columns_def by (rule restricted_fold_set_column_None)
  then show ?thesis by (simp add: map_idI)
qed

lemma people_rows:
  "rws (table ''people'' (fst (MainDataMerger_merge P S pr tf tx errs))) =
     drop_dups ''user_id'' [] (rws (prepared P) @ rws (prepared S))"
  using user_id_prepared [of P]
  by (simp add: MainDataMerger_merge_def Let_def table_def drop_duplicates_def pd_concat_def
      prepared_restricted)

text \<open>The user ids of a prepared table are those of the raw table, lists joined.\<close>

lemma user_ids_prepared:
  "user_ids (prepared df) =
     (if ''user_id'' \<in> set (columns df) then map list_to_string (col ''user_id'' df)
      else replicate (length (rws df)) Null)"
proof -
  have keep: "''user_id'' \<noteq> c \<Longrightarrow>
      map (\<lambda>r. r ''user_id'') (rws (set_column_None c d)) = map (\<lambda>r. r ''user_id'') (rws d)" for c d
    by (auto simp: set_column_None_def)
  have fold_keep: "''user_id'' \<notin> set cs \<Longrightarrow>
      map (\<lambda>r. r ''user_id'') (rws (fold set_column_None cs d)) = map (\<lambda>r. r ''user_id'') (rws d)" for cs d
    by (induction cs arbitrary: d) (simp_all add: keep)
  show ?thesis
  proof (cases "''user_id'' \<in> set (columns df)")
    case True
    then have "''user_id'' \<notin> set (filter (\<lambda>c. c \<notin> set (columns (convert_list_columns df))) common_columns)"
      by (simp add: convert_list_columns_def)
    from fold_keep [OF this] True show ?thesis
      by (simp add: user_ids_def col_def prepared_def add_missing_columns_def
          convert_list_columns_def comp_def)
  next
    case False
    have "filter (\<lambda>c. c \<notin> set (columns (convert_list_columns df))) common_columns =
          ''user_id'' # filter (\<lambda>c. c \<notin> set (columns df)) (tl common_columns)"
      using False by (simp add: convert_list_columns_def common_columns_def)
    moreover have "''user_id'' \<notin> set (filter (\<lambda>c. c \<notin> set (columns df)) (tl common_columns))"
      by (simp add: common_columns_def)
    ultimately have "map (\<lambda>r. r ''user_id'') (rws (prepared df)) =
        map (\<lambda>r. r ''user_id'') (rws (set_column_None ''user_id'' (convert_list_columns df)))"
      by (simp add: prepared_def add_missing_columns_def fold_keep)
    then show ?thesis
      by (simp add: user_ids_def col_def set_column_None_def convert_list_columns_def comp_def
          False map_replicate_const)
  qed
qed

text \<open>
  Claim C2, as the code has it. \<^verbatim>\<open>MainDataMerger.merge\<close> lays the prepared secondary
  table under the prepared primary table (lists joined, missing common columns null) and
  keeps, of the rows with the same user id, the first. So the user ids of the people
  table are pairwise distinct and are those of the two tables; every row of it is,
  cell for cell, a row of the primary or a row of the secondary table, none is put
  together from two; the row of a user id of the primary table is the first row of the
  primary table with that id, and the row of any other user id is the first row of the
  secondary table with it. The row count of the claim holds when the user ids of the
  primary table are pairwise distinct, and the primary table then stands unchanged at
  the top. It fails otherwise: a user id that occurs twice in the primary table keeps
  its first row only.
\<close>

theorem identity_reconciliation:
  "columns (table ''people'' (fst (MainDataMerger_merge P S pr tf tx errs))) =
       columns (prepared P) @ filter (\<lambda>c. c \<notin> set (columns (prepared P))) (columns (prepared S))
   \<and> (\<forall>r \<in> set (rws (prepared P)). \<forall>c. c \<in> set (columns (prepared P)) \<or> r c = Null)
   \<and> distinct (user_ids (table ''people'' (fst (MainDataMerger_merge P S pr tf tx errs))))
   \<and> set (user_ids (table ''people'' (fst (MainDataMerger_merge P S pr tf tx errs)))) =
       set (user_ids (prepared P)) \<union> set (user_ids (prepared S))
   \<and> set (rws (table ''people'' (fst (MainDataMerger_merge P S pr tf tx errs))))
       \<subseteq> set (rws (prepared P)) \<union> set (rws (prepared S))
   \<and> (\<forall>u \<in> set (user_ids (prepared P)).
         find (\<lambda>r. r ''user_id'' = u) (rws (table ''people'' (fst (MainDataMerger_merge P S pr tf tx errs))))
           = find (\<lambda>r. r ''user_id'' = u) (rws (prepared P))
         \<and> find (\<lambda>r. r ''user_id'' = u) (rws (prepared P)) \<noteq> None)
   \<and> (\<forall>u \<in> set (user_ids (prepared S)) - set (user_ids (prepared P)).
         find (\<lambda>r. r ''user_id'' = u) (rws (table ''people'' (fst (MainDataMerger_merge P S pr tf tx errs))))
           = find (\<lambda>r. r ''user_id'' = u) (rws (prepared S)))
   \<and> (distinct (user_ids (prepared P)) \<longrightarrow>
         length (rws (table ''people'' (fst (MainDataMerger_merge P S pr tf tx errs)))) =
           length (rws P) + card (set (user_ids (prepared S)) - set (user_ids (prepared P)))
         \<and> take (length (rws P)) (rws (table ''people'' (fst (MainDataMerger_merge P S pr tf tx errs))))
             = rws (prepared P))
   \<and> (\<not> distinct (user_ids (prepared P)) \<longrightarrow>
         length (rws (table ''people'' (fst (MainDataMerger_merge P S pr tf tx errs)))) <
           length (rws P) + card (set (user_ids (prepared S)) - set (user_ids (prepared P))))"
proof -
  let ?PR = "rws (prepared P)"
  let ?SR = "rws (prepared S)"
  let ?out = "table ''people'' (fst (MainDataMerger_merge P S pr tf tx errs))"
  have kP: "map (\<lambda>r. r ''user_id'') ?PR = user_ids (prepared P)" by (simp add: user_ids_def col_def)
  have kS: "map (\<lambda>r. r ''user_id'') ?SR = user_ids (prepared S)" by (simp add: user_ids_def col_def)
  have rows: "rws ?out = drop_dups ''user_id'' [] (?PR @ ?SR)" by (rule people_rows)
  have cols: "columns ?out =
      columns (prepared P) @ filter (\<lambda>c. c \<notin> set (columns (prepared P))) (columns (prepared S))"
    by (simp add: MainDataMerger_merge_def Let_def table_def drop_duplicates_def pd_concat_def)
  have null: "\<forall>r \<in> set ?PR. \<forall>c. c \<in> set (columns (prepared P)) \<or> r c = Null"
  proof (intro ballI allI)
    fix r c assume "r \<in> set ?PR"
    then have "r \<in> set (map (restrict_row (columns (prepared P))) ?PR)"
      by (simp only: prepared_restricted)
    then obtain r0 where "r = restrict_row (columns (prepared P)) r0" by auto
    then show "c \<in> set (columns (prepared P)) \<or> r c = Null"
      by (simp add: restrict_row_def)
  qed
  have dist: "distinct (user_ids ?out)"
    unfolding user_ids_def col_def rows by (rule drop_dups_distinct)
  have ids: "set (user_ids ?out) = set (user_ids (prepared P)) \<union> set (user_ids (prepared S))"
    unfolding user_ids_def col_def rows drop_dups_keys by simp
  have sub: "set (rws ?out) \<subseteq> set ?PR \<union> set ?SR"
    unfolding rows using drop_dups_mem [of _ "''user_id''" "[]" "?PR @ ?SR"] by auto
  have fnd: "find (\<lambda>r. r ''user_id'' = u) (rws ?out) =
      (case find (\<lambda>r. r ''user_id'' = u) ?PR of
         None \<Rightarrow> find (\<lambda>r. r ''user_id'' = u) ?SR | Some x \<Rightarrow> Some x)" for u
    unfolding rows by (simp add: find_drop_dups find_append)
  have prim: "\<forall>u \<in> set (user_ids (prepared P)).
         find (\<lambda>r. r ''user_id'' = u) (rws ?out) = find (\<lambda>r. r ''user_id'' = u) ?PR
         \<and> find (\<lambda>r. r ''user_id'' = u) ?PR \<noteq> None"
  proof
    fix u assume "u \<in> set (user_ids (prepared P))"
    then have "u \<in> set (map (\<lambda>r. r ''user_id'') ?PR)" by (simp only: kP)
    from find_Some_keys [OF this] obtain x where "find (\<lambda>r. r ''user_id'' = u) ?PR = Some x" ..
    then show "find (\<lambda>r. r ''user_id'' = u) (rws ?out) = find (\<lambda>r. r ''user_id'' = u) ?PR
         \<and> find (\<lambda>r. r ''user_id'' = u) ?PR \<noteq> None"
      by (simp add: fnd)
  qed
  have sec: "\<forall>u \<in> set (user_ids (prepared S)) - set (user_ids (prepared P)).
         find (\<lambda>r. r ''user_id'' = u) (rws ?out) = find (\<lambda>r. r ''user_id'' = u) ?SR"
  proof
    fix u assume "u \<in> set (user_ids (prepared S)) - set (user_ids (prepared P))"
    then have "u \<notin> set (map (\<lambda>r. r ''user_id'') ?PR)" by (simp only: kP) simp
    from find_None_keys [OF this]
    show "find (\<lambda>r. r ''user_id'' = u) (rws ?out) = find (\<lambda>r. r ''user_id'' = u) ?SR"
      by (simp add: fnd)
  qed
  have split: "rws ?out = drop_dups ''user_id'' [] ?PR @ drop_dups ''user_id'' (user_ids (prepared P)) ?SR"
    by (simp only: rows drop_dups_append kP append_Nil2)
  have lenS: "length (drop_dups ''user_id'' (user_ids (prepared P)) ?SR) =
      card (set (user_ids (prepared S)) - set (user_ids (prepared P)))"
    by (simp only: drop_dups_length kS)
  have yes: "length (rws ?out) = length (rws P) + card (set (user_ids (prepared S)) - set (user_ids (prepared P)))
        \<and> take (length (rws P)) (rws ?out) = ?PR" if d: "distinct (user_ids (prepared P))"
  proof -
    have idP: "drop_dups ''user_id'' [] ?PR = ?PR"
      using d by (intro drop_dups_id) (simp_all only: kP, simp)
    show ?thesis
      by (simp add: split idP lenS length_prepared)
  qed
  have no: "length (rws ?out) < length (rws P) + card (set (user_ids (prepared S)) - set (user_ids (prepared P)))"
    if d: "\<not> distinct (user_ids (prepared P))"
  proof -
    have "length (drop_dups ''user_id'' [] ?PR) = card (set (user_ids (prepared P)))"
      by (simp only: drop_dups_length kP) simp
    moreover have "card (set (user_ids (prepared P))) < length (user_ids (prepared P))"
      using d card_length [of "user_ids (prepared P)"] distinct_card [of "user_ids (prepared P)"]
        card_distinct [of "user_ids (prepared P)"] by linarith
    moreover have "length (user_ids (prepared P)) = length (rws P)"
      by (simp add: user_ids_def col_def length_prepared)
    ultimately show ?thesis by (simp add: split lenS)
  qed
  from cols null dist ids sub prim sec yes no show ?thesis by blast
qed

theorem identity_reconciliation_witness:
  "Num 1 \<in> set (user_ids (prepared (raw_table (people_frame [person 1 ''A'']))))
   \<and> Num 2 \<in> set (user_ids (prepared (raw_table (people_frame [person 1 ''B'', person 2 ''C''])))) -
               set (user_ids (prepared (raw_table (people_frame [person 1 ''A'']))))
   \<and> distinct (user_ids (prepared (raw_table (people_frame [person 1 ''A'']))))
   \<and> length (rws (table ''people'' (fst (MainDataMerger_merge (raw_table (people_frame [person 1 ''A'']))
         (raw_table (people_frame [person 1 ''B'', person 2 ''C''])) DataFrame_empty DataFrame_empty None [])))) = 2
   \<and> col ''user_id'' (table ''people'' (fst (MainDataMerger_merge (raw_table (people_frame [person 1 ''A'']))
         (raw_table (people_frame [person 1 ''B'', person 2 ''C''])) DataFrame_empty DataFrame_empty None [])))
       = [Num 1, Num 2]
   \<and> col ''city'' (table ''people'' (fst (MainDataMerger_merge (raw_table (people_frame [person 1 ''A'']))
         (raw_table (people_frame [person 1 ''B'', person 2 ''C''])) DataFrame_empty DataFrame_empty None [])))
       = [Str ''A'', Str ''C'']
   \<and> take 1 (rws (table ''people'' (fst (MainDataMerger_merge (raw_table (people_frame [person 1 ''A'']))
         (raw_table (people_frame [person 1 ''B'', person 2 ''C''])) DataFrame_empty DataFrame_empty None []))))
       = rws (prepared (raw_table (people_frame [person 1 ''A''])))
   \<and> col ''devices'' (prepared with_devices) = [Str ''Android, Desktop'']"
proof -
  let ?P = "raw_table (people_frame [person 1 ''A''])"
  let ?S = "raw_table (people_frame [person 1 ''B'', person 2 ''C''])"
  have p: "user_ids (prepared ?P) = [Num 1]"
    by (simp add: frame_defs)
  have s: "user_ids (prepared ?S) = [Num 1, Num 2]"
    by (simp add: frame_defs)
  have h: "distinct (user_ids (prepared ?P))"
    unfolding p by simp
  have d: "set (user_ids (prepared ?S)) - set (user_ids (prepared ?P)) = {Num 2}"
    unfolding p s by auto
  have c: "col ''user_id'' (table ''people'' (fst (MainDataMerger_merge ?P ?S DataFrame_empty DataFrame_empty None [])))
       = [Num 1, Num 2]"
    "col ''city'' (table ''people'' (fst (MainDataMerger_merge ?P ?S DataFrame_empty DataFrame_empty None [])))
       = [Str ''A'', Str ''C'']"
    by (simp_all add: frame_defs)
  have l: "length (rws ?P) = 1"
    by (simp add: raw_table_def people_frame_def)
  have v: "col ''devices'' (prepared with_devices) = [Str ''Android, Desktop'']"
    by (simp add: frame_defs with_devices_def)
  from identity_reconciliation [of ?P ?S DataFrame_empty DataFrame_empty None "[]"] h
  have "length (rws (table ''people'' (fst (MainDataMerger_merge ?P ?S DataFrame_empty DataFrame_empty None [])))) =
          length (rws ?P) + card (set (user_ids (prepared ?S)) - set (user_ids (prepared ?P)))"
    and "take (length (rws ?P)) (rws (table ''people'' (fst (MainDataMerger_merge ?P ?S DataFrame_empty DataFrame_empty None []))))
          = rws (prepared ?P)"
    by blast+
  then have "length (rws (table ''people'' (fst (MainDataMerger_merge ?P ?S DataFrame_empty DataFrame_empty None [])))) = 2"
    and "take 1 (rws (table ''people'' (fst (MainDataMerger_merge ?P ?S DataFrame_empty DataFrame_empty None []))))
          = rws (prepared ?P)"
    unfolding l d by simp_all
  with p s h c v show ?thesis by simp
qed

theorem identity_reconciliation_counterexample:
  "col ''user_id'' (raw_table (people_frame [person 1 ''A'', person 1 ''B''])) = [Scalar (Num 1), Scalar (Num 1)]
   \<and> length (rws (table ''people'' (fst (MainDataMerger_merge
       (raw_table (people_frame [person 1 ''A'', person 1 ''B''])) (raw_table (people_frame []))
       DataFrame_empty DataFrame_empty None [])))) = 1
   \<and> col ''city'' (table ''people'' (fst (MainDataMerger_merge
       (raw_table (people_frame [person 1 ''A'', person 1 ''B''])) (raw_table (people_frame []))
       DataFrame_empty DataFrame_empty None []))) = [Str ''A'']
   \<and> length (rws (raw_table (people_frame [person 1 ''A'', person 1 ''B'']))) +
      card (set (user_ids (prepared (raw_table (people_frame [])))) -
            set (user_ids (prepared (raw_table (people_frame [person 1 ''A'', person 1 ''B'']))))) = 2"
  by (simp add: frame_defs)

section \<open>Reference resolution\<close>












section \<open>The handler of UserReferencesMerger.merge\<close>

lemma promotions_errors_kept:
  "\<exists>ws. snd (add_user_references_to_promotions people_df promotions_df errs) = errs @ ws"
  by (simp add: add_user_references_to_promotions_def Let_def warn_missing_user_id_def
      add_error_def split: sum.splits)

lemma promotions_raise_errors:
  "add_user_references_to_promotions people_df promotions_df errs = (Inl e, errs') \<Longrightarrow> errs' = errs"
  by (auto simp: add_user_references_to_promotions_def Let_def split: sum.splits if_splits)

lemma transactions_raise_errors:
  "add_user_references_to_transactions people_df transactions_df errs = (Inl e, errs') \<Longrightarrow> errs' = errs"
  by (auto simp: add_user_references_to_transactions_def Let_def
      split: sum.splits if_splits option.splits)

lemma try_raise_errors:
  assumes "UserReferencesMerger_try people_df promotions_df transactions_df errs = (Inl e, errs')"
  shows "\<exists>ws. errs' = errs @ ws"
proof (cases "add_user_references_to_promotions people_df promotions_df errs")
  case (Pair rp e1)
  from promotions_errors_kept [of people_df promotions_df errs] Pair
  obtain ws where e1: "e1 = errs @ ws" by auto
  show ?thesis
  proof (cases rp)
    case (Inl a)
    with assms Pair have "errs' = e1" by (simp add: UserReferencesMerger_try_def)
    with e1 show ?thesis by blast
  next
    case (Inr p)
    show ?thesis
    proof (cases transactions_df)
      case None
      with assms Pair Inr show ?thesis by (simp add: UserReferencesMerger_try_def)
    next
      case (Some t)
      obtain rt e2 where t2: "add_user_references_to_transactions people_df (Some t) e1 = (rt, e2)"
        by (cases "add_user_references_to_transactions people_df (Some t) e1")
      with assms Pair Inr Some obtain a where "rt = Inl a" "errs' = e2"
        by (cases rt) (auto simp: UserReferencesMerger_try_def)
      with t2 transactions_raise_errors have "errs' = e1" by blast
      with e1 show ?thesis by blast
    qed
  qed
qed

text \<open>
  Claim C10. When an exception leaves the \<^verbatim>\<open>try\<close> block of
  \<^verbatim>\<open>UserReferencesMerger.merge\<close>, the method returns a dictionary (its result type has
  no exception): the promotions and the transactions the object was built with, as they
  were; and \<^verbatim>\<open>get_errors\<close> then ends with the message of the exception, after the
  errors recorded before it, none of which is lost.
\<close>

theorem merge_exception_passthrough:
  assumes "UserReferencesMerger_try people_df promotions_df transactions_df errs = (Inl e, errs')"
  shows "UserReferencesMerger_merge people_df promotions_df transactions_df errs =
           ([(''promotions'', Some promotions_df), (''transactions'', transactions_df)],
            errs' @ [''Unexpected error in user reference merging: '' @ str_error e])
       \<and> get_errors (snd (UserReferencesMerger_merge people_df promotions_df transactions_df errs)) =
           errs' @ [''Unexpected error in user reference merging: '' @ str_error e]
       \<and> (\<exists>ws. errs' = errs @ ws)"
  using assms try_raise_errors [OF assms]
  by (simp add: UserReferencesMerger_merge_def add_error_def get_errors_def)

theorem merge_exception_passthrough_witness:
  "UserReferencesMerger_try people_no_id promo_unresolved (Some tx_unresolved) [] =
     (Inl (KeyError ''user_id''), [])
   \<and> UserReferencesMerger_merge people_no_id promo_unresolved (Some tx_unresolved) [] =
       ([(''promotions'', Some promo_unresolved), (''transactions'', Some tx_unresolved)],
        [''Unexpected error in user reference merging: '' @ [CHR 0x27] @ ''user_id'' @ [CHR 0x27]])"
proof -
  have h: "UserReferencesMerger_try people_no_id promo_unresolved (Some tx_unresolved) [] =
     (Inl (KeyError ''user_id''), [])"
    by (simp add: raise_defs)
  from merge_exception_passthrough [OF h] h show ?thesis
    by (simp add: quoted_def)
qed

section \<open>The store of PeopleMerger\<close>

text \<open>
  Claim C8 says that no component changes the tables it is given.
  \<^verbatim>\<open>PeopleMerger.merge\<close> does: lines 127-132 assign the missing common columns to the
  very objects the caller passed, where \<^verbatim>\<open>MainDataMerger.merge\<close> (lines 668-669) and
  \<^verbatim>\<open>UserReferencesMerger\<close> (lines 180, 235) take copies first. For a person table
  with the columns \<^verbatim>\<open>user_id\<close> and \<^verbatim>\<open>city\<close> only, the caller's object has eight
  columns after \<^verbatim>\<open>merge()\<close>, whatever pandas' merge returns or raises.
\<close>

theorem PeopleMerger_merge_writes_input:
  "columns (two_tables 0) = [''user_id'', ''city'']
   \<and> columns (snd (PeopleMerger_merge pd_merge_outer 0 1 [] two_tables) 0) =
       [''user_id'', ''city'', ''first_name'', ''last_name'', ''email'', ''phone'', ''country'',
        ''devices'']
   \<and> snd (PeopleMerger_merge pd_merge_outer 0 1 [] two_tables) 0 \<noteq> two_tables 0"
proof -
  have a: "columns (two_tables 0) = [''user_id'', ''city'']"
    by (simp add: heap_defs)
  have b: "columns (snd (PeopleMerger_merge pd_merge_outer 0 1 [] two_tables) 0) =
       [''user_id'', ''city'', ''first_name'', ''last_name'', ''email'', ''phone'', ''country'',
        ''devices'']"
    by (simp add: heap_defs Let_def split: sum.splits)
  have c: "snd (PeopleMerger_merge pd_merge_outer 0 1 [] two_tables) 0 \<noteq> two_tables 0"
  proof
    assume "snd (PeopleMerger_merge pd_merge_outer 0 1 [] two_tables) 0 = two_tables 0"
    then have "columns (snd (PeopleMerger_merge pd_merge_outer 0 1 [] two_tables) 0) = columns (two_tables 0)"
      by simp
    then show False unfolding a b by simp
  qed
  from a b c show ?thesis by blast
qed

section \<open>Group keys\<close>

text \<open>The keys of a grouping are the distinct non-null cells of the key column.\<close>

lemma set_insert_cell: "set (insert_cell x ys) = insert x (set ys)"
  by (induction ys) auto

lemma set_sort_cells: "set (sort_cells xs) = set xs"
  by (induction xs) (simp_all add: sort_cells_def set_insert_cell)

lemma distinct_insert_cell: "distinct (insert_cell x ys) \<longleftrightarrow> x \<notin> set ys \<and> distinct ys"
  by (induction ys) (auto simp: set_insert_cell)

lemma distinct_sort_cells: "distinct (sort_cells xs) \<longleftrightarrow> distinct xs"
proof (induction xs)
  case Nil
  then show ?case by (simp add: sort_cells_def)
next
  case (Cons x xs)
  have "sort_cells (x # xs) = insert_cell x (sort_cells xs)" by (simp add: sort_cells_def)
  with Cons show ?case by (simp add: distinct_insert_cell set_sort_cells)
qed

lemma set_group_keys: "set (group_keys k rs) = {v. v \<noteq> Null \<and> v \<in> (\<lambda>r. r k) ` set rs}"
  by (auto simp: group_keys_def set_sort_cells notna_def)

lemma distinct_group_keys: "distinct (group_keys k rs)"
  by (simp add: group_keys_def distinct_sort_cells)

section \<open>Steps that may raise\<close>

lemma and_then_Inr [simp]: "and_then (Inr v) f = f v"
  by (simp add: and_then_def)

lemma and_then_Inl [simp]: "and_then (Inl e) f = Inl e"
  by (simp add: and_then_def)

lemma and_then_eq_Inr: "and_then x f = Inr y \<longleftrightarrow> (\<exists>v. x = Inr v \<and> f v = Inr y)"
  by (cases x) simp_all

lemma collect_map_Inr:
  "collect (map f xs) = Inr vs \<Longrightarrow> length vs = length xs \<and> (\<forall>i < length xs. f (xs ! i) = Inr (vs ! i))"
proof (induction xs arbitrary: vs)
  case Nil
  then show ?case by simp
next
  case (Cons x xs)
  from Cons.prems obtain v ws where v: "f x = Inr v" and ws: "collect (map f xs) = Inr ws"
    and vs: "vs = v # ws"
    by (auto simp: and_then_eq_Inr)
  from Cons.IH [OF ws] have "length ws = length xs" "\<forall>i < length xs. f (xs ! i) = Inr (ws ! i)"
    by blast+
  with v vs show ?case by (auto simp: nth_Cons split: nat.splits)
qed

lemma series_keys: "series f keys = Inr s \<Longrightarrow> map fst s = keys"
  by (auto simp: series_def and_then_eq_Inr dest: collect_map_Inr)


lemma series_missing:
  assumes "series f keys = Inr s" and "k \<notin> set keys"
  shows "map_of s k = None"
proof -
  from series_keys [OF assms(1)] assms(2) have "k \<notin> fst ` set s"
    by (metis set_map)
  then show ?thesis by (simp add: map_of_eq_None_iff)
qed

lemma series_get0:
  assumes "series f keys = Inr s" and "k \<in> set keys"
  shows "get0 s k = value_at s k"
proof -
  from series_keys [OF assms(1)] assms(2) have "k \<in> fst ` set s"
    by (metis set_map)
  then obtain v where "map_of s k = Some v"
    by (metis map_of_eq_None_iff not_Some_eq)
  then show ?thesis by (simp add: get0_def value_at_def)
qed

lemma series_cong:
  "keys = keys' \<Longrightarrow> (\<And>k. k \<in> set keys' \<Longrightarrow> f k = g k) \<Longrightarrow> series f keys = series g keys'"
  by (simp add: series_def cong: map_cong)

section \<open>Item averages\<close>






section \<open>The rows of the per-user summaries\<close>

text \<open>
  The left join against the people table yields the rows of the people table in their
  order, each joined with the rows of its user in the aggregate.
\<close>

lemma filter_keyed_map:
  assumes "distinct ks" and "\<And>k. f k c = k"
  shows "filter (\<lambda>m. m c = u) (map f ks) = (if u \<in> set ks then [f u] else [])"
  using assms(1)
proof (induction ks)
  case Nil
  then show ?case by simp
next
  case (Cons k ks)
  then show ?case using assms(2) by auto
qed

lemma joined_keyed:
  assumes "distinct ks" and "\<And>k. f k ''user_id'' = k"
  shows "joined left \<lparr>columns = cs, rws = map f ks\<rparr> =
           map (\<lambda>l. if l ''user_id'' \<in> set ks then join_rows cs l (f (l ''user_id'')) else l)
             (rws left)"
proof -
  have fk: "\<And>u. filter (\<lambda>m. m ''user_id'' = u) (map f ks) = (if u \<in> set ks then [f u] else [])"
    using assms by (rule filter_keyed_map [where f = f and c = "''user_id''" and ks = ks])
  have "concat (map (\<lambda>l. case filter (\<lambda>m. m ''user_id'' = l ''user_id'') (map f ks) of
                [] \<Rightarrow> [l] | m # ms \<Rightarrow> map (join_rows cs l) (m # ms)) xs) =
        map (\<lambda>l. if l ''user_id'' \<in> set ks then join_rows cs l (f (l ''user_id'')) else l) xs" for xs
    by (induction xs) (simp_all add: fk)
  from this [of "rws left"] show ?thesis
    by (simp add: joined_def fk cong: list.case_cong)
qed

lemma length_upcast: "length (upcast pd cs rs) = length rs"
  by (simp add: upcast_def)

lemma upcast_cell:
  "i < length rs \<Longrightarrow>
     (upcast pd cs rs ! i) c =
       (if c \<in> set cs \<and> list_ex (\<lambda>x. isna (x c)) rs then float_of pd ((rs ! i) c) else (rs ! i) c)"
  by (simp add: upcast_def)

lemma upcast_other: "i < length rs \<Longrightarrow> c \<notin> set cs \<Longrightarrow> (upcast pd cs rs ! i) c = (rs ! i) c"
  by (simp add: upcast_def)

lemma upcast_null: "i < length rs \<Longrightarrow> (rs ! i) c = Null \<Longrightarrow> (upcast pd cs rs ! i) c = Null"
  by (simp add: upcast_def float_of_def isna_def)

lemma length_fillna0: "length (rws (fillna0 c df)) = length (rws df)"
  by (simp add: fillna0_def)

lemma length_astype_int: "length (rws (astype_int c df)) = length (rws df)"
  by (simp add: astype_int_def)

lemma fillna0_cell:
  "i < length (rws df) \<Longrightarrow>
     (rws (fillna0 c df) ! i) c' = (if c' = c then fill ((rws df ! i) c) else (rws df ! i) c')"
  by (simp add: fillna0_def)

lemma astype_int_cell:
  "i < length (rws df) \<Longrightarrow>
     (rws (astype_int c df) ! i) c' = (if c' = c then to_int ((rws df ! i) c) else (rws df ! i) c')"
  by (simp add: astype_int_def)

lemma columns_fillna0 [simp]: "columns (fillna0 c df) = columns df"
  by (simp add: fillna0_def)

lemma columns_astype_int [simp]: "columns (astype_int c df) = columns df"
  by (simp add: astype_int_def)

lemma to_int_of_nat: "to_int (Num (of_nat n)) = Num (of_nat n)"
  by (simp add: to_int_def)

lemma fill_simps [simp]: "fill Null = Num 0" "fill (Num x) = Num x"
  by (simp_all add: fill_def isna_def)

lemma to_int_0 [simp]: "to_int (Num 0) = Num 0"
  by (simp add: to_int_def)

lemma group_rows_uniform:
  "filter (\<lambda>x. x c = k \<and> notna (x c)) rs =
     (if k \<in> set (group_keys c rs) then group_rows c k rs else [])"
proof (cases "k \<in> set (group_keys c rs)")
  case True
  then have "k \<noteq> Null" by (simp add: set_group_keys)
  then have "filter (\<lambda>x. x c = k \<and> notna (x c)) rs = filter (\<lambda>x. x c = k) rs"
    by (intro filter_cong) (auto simp: notna_def)
  with True show ?thesis by (simp add: group_rows_def)
next
  case False
  then have "\<forall>x \<in> set rs. \<not> (x c = k \<and> notna (x c))"
    by (auto simp: set_group_keys notna_def)
  then have "filter (\<lambda>x. x c = k \<and> notna (x c)) rs = []"
    by (simp only: filter_empty_conv)
  with False show ?thesis by simp
qed

lemma user_transactions_row_key: "user_transactions_row s rs k ''user_id'' = k"
  by (simp add: user_transactions_row_def Let_def)

text \<open>A run of the \<^verbatim>\<open>try\<close> block of \<^verbatim>\<open>UserTransactionsMerger.merge\<close> that raises nothing.\<close>

lemma user_transactions_try_Inr:
  assumes "user_transactions_try pd T P = Inr out"
  obtains total_spent where
    "grouped_sum pd ''user_id'' ''price'' (rws T) = Inr total_spent"
    "''user_id'' \<in> set (columns P)"
    "out = astype_int ''transaction_count'' (fillna0 ''transaction_count'' (fillna0 ''total_spent''
       \<lparr>columns = [''user_id'', ''total_spent'', ''transaction_count'', ''favorite_store'',
                   ''favorite_item''],
        rws = upcast pd [''total_spent'', ''favorite_store'', ''favorite_item'']
                (map (\<lambda>l. if l ''user_id'' \<in> set (group_keys ''user_id'' (rws T))
                          then join_rows [''user_id'', ''total_spent'', ''transaction_count'',
                                 ''favorite_store'', ''favorite_item''] l
                                 (user_transactions_row total_spent (rws T) (l ''user_id''))
                          else l)
                   (map (restrict_row [''user_id'']) (rws P)))\<rparr>))"
proof -
  from assms obtain agg ids m where agg: "user_transactions_agg pd T = Inr agg"
    and ids: "select_user_id P = Inr ids"
    and m: "merge_left_user_id pd [''transaction_count''] ids agg = Inr m"
    and out: "out = astype_int ''transaction_count''
                (fillna0 ''transaction_count'' (fillna0 ''total_spent'' m))"
    by (auto simp: user_transactions_try_def and_then_eq_Inr)
  from agg obtain ts where ts: "grouped_sum pd ''user_id'' ''price'' (rws T) = Inr ts"
    and agg': "agg = \<lparr>columns = [''user_id'', ''total_spent'', ''transaction_count'',
                       ''favorite_store'', ''favorite_item''],
          rws = map (user_transactions_row ts (rws T)) (group_keys ''user_id'' (rws T))\<rparr>"
    by (auto simp: user_transactions_agg_def and_then_eq_Inr)
  from ids have uid: "''user_id'' \<in> set (columns P)"
    and ids': "ids = \<lparr>columns = [''user_id''], rws = map (restrict_row [''user_id'']) (rws P)\<rparr>"
    by (auto simp: select_user_id_def split: if_splits)
  have j: "joined ids agg =
      map (\<lambda>l. if l ''user_id'' \<in> set (group_keys ''user_id'' (rws T))
                then join_rows [''user_id'', ''total_spent'', ''transaction_count'',
                       ''favorite_store'', ''favorite_item''] l
                       (user_transactions_row ts (rws T) (l ''user_id''))
                else l)
        (map (restrict_row [''user_id'']) (rws P))"
    unfolding agg' ids'
    by (simp add: joined_keyed [where f = "user_transactions_row ts (rws T)"
          and ks = "group_keys ''user_id'' (rws T)", OF distinct_group_keys user_transactions_row_key])
  from m have m': "m = \<lparr>columns = columns ids @ filter (\<lambda>c. c \<notin> set (columns ids)) (columns agg),
       rws = upcast pd (filter (\<lambda>c. c \<noteq> ''user_id'' \<and> c \<notin> set [''transaction_count'']) (columns agg))
               (joined ids agg)\<rparr>"
    by (auto simp: merge_left_user_id_def split: option.splits)
  have "m = \<lparr>columns = [''user_id'', ''total_spent'', ''transaction_count'', ''favorite_store'',
                   ''favorite_item''],
        rws = upcast pd [''total_spent'', ''favorite_store'', ''favorite_item'']
                (map (\<lambda>l. if l ''user_id'' \<in> set (group_keys ''user_id'' (rws T))
                          then join_rows [''user_id'', ''total_spent'', ''transaction_count'',
                                 ''favorite_store'', ''favorite_item''] l
                                 (user_transactions_row ts (rws T) (l ''user_id''))
                          else l)
                   (map (restrict_row [''user_id'']) (rws P)))\<rparr>"
    unfolding m' j by (simp add: agg' ids')
  with ts uid out that show ?thesis by blast
qed

lemma user_transactions_rows:
  assumes "user_transactions_try pd T P = Inr out"
  shows "length (rws out) = length (rws P)"
    and "i < length (rws P) \<Longrightarrow> (rws out ! i) ''user_id'' = (rws P ! i) ''user_id''"
    and "i < length (rws P) \<Longrightarrow> (rws out ! i) ''transaction_count'' =
           Num (of_nat (agg_nunique ''transaction_id''
             (filter (\<lambda>x. x ''user_id'' = (rws P ! i) ''user_id'' \<and> notna (x ''user_id'')) (rws T))))"
    and "i < length (rws P) \<Longrightarrow> (rws P ! i) ''user_id'' \<notin> set (group_keys ''user_id'' (rws T)) \<Longrightarrow>
           (rws out ! i) ''total_spent'' = Num 0"
proof -
  from assms obtain ts where
    out: "out = astype_int ''transaction_count'' (fillna0 ''transaction_count'' (fillna0 ''total_spent''
       \<lparr>columns = [''user_id'', ''total_spent'', ''transaction_count'', ''favorite_store'',
                   ''favorite_item''],
        rws = upcast pd [''total_spent'', ''favorite_store'', ''favorite_item'']
                (map (\<lambda>l. if l ''user_id'' \<in> set (group_keys ''user_id'' (rws T))
                          then join_rows [''user_id'', ''total_spent'', ''transaction_count'',
                                 ''favorite_store'', ''favorite_item''] l
                                 (user_transactions_row ts (rws T) (l ''user_id''))
                          else l)
                   (map (restrict_row [''user_id'']) (rws P)))\<rparr>))"
    by (rule user_transactions_try_Inr)
  define J where "J = map (\<lambda>l. if l ''user_id'' \<in> set (group_keys ''user_id'' (rws T))
                          then join_rows [''user_id'', ''total_spent'', ''transaction_count'',
                                 ''favorite_store'', ''favorite_item''] l
                                 (user_transactions_row ts (rws T) (l ''user_id''))
                          else l)
                   (map (restrict_row [''user_id'']) (rws P))"
  let ?u = "(rws P ! i) ''user_id''"
  let ?cs = "[''total_spent'', ''favorite_store'', ''favorite_item'']"
  have out': "out = astype_int ''transaction_count'' (fillna0 ''transaction_count'' (fillna0 ''total_spent''
       \<lparr>columns = [''user_id'', ''total_spent'', ''transaction_count'', ''favorite_store'',
                   ''favorite_item''],
        rws = upcast pd ?cs J\<rparr>))"
    unfolding out J_def ..
  have lJ: "length J = length (rws P)" by (simp add: J_def)
  show len: "length (rws out) = length (rws P)"
    by (simp add: out' length_astype_int length_fillna0 length_upcast lJ)
  have J: "J ! i = (if ?u \<in> set (group_keys ''user_id'' (rws T))
                 then join_rows [''user_id'', ''total_spent'', ''transaction_count'',
                        ''favorite_store'', ''favorite_item''] (restrict_row [''user_id''] (rws P ! i))
                        (user_transactions_row ts (rws T) ?u)
                 else restrict_row [''user_id''] (rws P ! i))" if "i < length (rws P)"
    using that by (simp add: J_def restrict_row_def)
  have cell: "(rws out ! i) c =
      (if c = ''transaction_count'' then to_int (fill ((upcast pd ?cs J ! i) c))
       else if c = ''total_spent'' then fill ((upcast pd ?cs J ! i) c)
       else (upcast pd ?cs J ! i) c)"
    if "i < length (rws P)" for c
    using that unfolding out'
    by (simp add: astype_int_cell fillna0_cell length_fillna0 length_upcast lJ)
  show "(rws out ! i) ''user_id'' = ?u" if i: "i < length (rws P)"
    unfolding cell [OF i]
    by (simp add: upcast_other lJ i J [OF i] join_rows_def restrict_row_def)
  show "(rws out ! i) ''transaction_count'' =
           Num (of_nat (agg_nunique ''transaction_id''
             (filter (\<lambda>x. x ''user_id'' = ?u \<and> notna (x ''user_id'')) (rws T))))"
    if i: "i < length (rws P)"
    unfolding cell [OF i] group_rows_uniform
    by (simp add: upcast_other lJ i J [OF i] join_rows_def restrict_row_def
        user_transactions_row_def agg_nunique_def to_int_of_nat Let_def)
  show "(rws out ! i) ''total_spent'' = Num 0"
    if i: "i < length (rws P)" and u: "?u \<notin> set (group_keys ''user_id'' (rws T))"
  proof -
    have "(J ! i) ''total_spent'' = Null"
      unfolding J [OF i] using u by (simp add: restrict_row_def)
    then have "(upcast pd ?cs J ! i) ''total_spent'' = Null"
      by (intro upcast_null) (simp_all add: i lJ)
    then show ?thesis unfolding cell [OF i] by simp
  qed
qed

section \<open>Distinct transaction counts\<close>

lemma agg_nunique_card:
  "agg_nunique c g = card {t. t \<noteq> Null \<and> (\<exists>x \<in> set g. x c = t)}"
proof -
  have "set (filter notna (map (\<lambda>r. r c) g)) = {t. t \<noteq> Null \<and> (\<exists>x \<in> set g. x c = t)}"
    by (auto simp: notna_def)
  then show ?thesis
    by (simp only: agg_nunique_def length_remdups_card_conv)
qed

lemma agg_nunique_filter_card:
  "agg_nunique c (filter (\<lambda>x. A x \<and> B x) rs) =
     card {t. t \<noteq> Null \<and> (\<exists>x \<in> set rs. A x \<and> B x \<and> x c = t)}"
proof -
  have "{t. t \<noteq> Null \<and> (\<exists>x \<in> set (filter (\<lambda>x. A x \<and> B x) rs). x c = t)} =
        {t. t \<noteq> Null \<and> (\<exists>x \<in> set rs. A x \<and> B x \<and> x c = t)}"
    by auto
  then show ?thesis by (simp only: agg_nunique_card)
qed

lemma agg_nunique_group_card:
  "agg_nunique c (group_rows k v rs) =
     card {t. t \<noteq> Null \<and> (\<exists>x \<in> set rs. x k = v \<and> x c = t)}"
proof -
  have "{t. t \<noteq> Null \<and> (\<exists>x \<in> set (group_rows k v rs). x c = t)} =
        {t. t \<noteq> Null \<and> (\<exists>x \<in> set rs. x k = v \<and> x c = t)}"
    by (auto simp: group_rows_def)
  then show ?thesis by (simp only: agg_nunique_card)
qed

text \<open>The table of each summary is the result of its \<^verbatim>\<open>try\<close> block, or empty.\<close>

lemma user_transactions_table:
  "r \<in> set (rws (table ''user_transactions'' (fst (UserTransactionsMerger_merge pd T P errs)))) \<Longrightarrow>
     \<exists>out. user_transactions_try pd T P = Inr out \<and> r \<in> set (rws out)"
  by (auto simp: UserTransactionsMerger_merge_def table_def DataFrame_empty_def Let_def
      split: if_splits sum.splits)

lemma item_summary_rows:
  "r \<in> set (rws (table ''item_summary'' (fst (ItemSummaryMerger_merge pd T errs)))) \<Longrightarrow>
     \<exists>a b c k. r = item_summary_row a b c (rws T) k"
  by (auto simp: ItemSummaryMerger_merge_def item_summary_try_def and_then_eq_Inr table_def
      DataFrame_empty_def Let_def split: if_splits sum.splits) blast

lemma store_summary_rows:
  "r \<in> set (rws (table ''store_summary'' (fst (StoreSummaryMerger_merge pd T errs)))) \<Longrightarrow>
     \<exists>a b c d k. r = store_summary_row a b c d (rws T) k"
  by (auto simp: StoreSummaryMerger_merge_def store_summary_try_def and_then_eq_Inr table_def
      DataFrame_empty_def Let_def split: if_splits sum.splits) blast

text \<open>
  Claim C5. In every row of the per-user, the per-item and the per-store summary the
  transaction count is the number of distinct non-null transaction ids among the lines
  of that user, item or store, not the number of lines: a transaction id that stands on
  several lines counts once. This holds whatever pandas computes for the sums and the
  quotients of the other columns.
\<close>

theorem distinct_transaction_counts:
  "(\<forall>r \<in> set (rws (table ''user_transactions'' (fst (UserTransactionsMerger_merge pd T P errs)))).
      r ''transaction_count'' =
        Num (of_nat (card {t. t \<noteq> Null \<and> (\<exists>x \<in> set (rws T).
               x ''user_id'' = r ''user_id'' \<and> notna (x ''user_id'') \<and> x ''transaction_id'' = t)})))
   \<and> (\<forall>r \<in> set (rws (table ''item_summary'' (fst (ItemSummaryMerger_merge pd T errs)))).
      r ''transaction_count'' =
        Num (of_nat (card {t. t \<noteq> Null \<and> (\<exists>x \<in> set (rws T).
               x ''item'' = r ''item'' \<and> x ''transaction_id'' = t)})))
   \<and> (\<forall>r \<in> set (rws (table ''store_summary'' (fst (StoreSummaryMerger_merge pd T errs)))).
      r ''total_transactions'' =
        Num (of_nat (card {t. t \<noteq> Null \<and> (\<exists>x \<in> set (rws T).
               x ''store'' = r ''store'' \<and> x ''transaction_id'' = t)})))"
proof -
  have u: "r ''transaction_count'' =
        Num (of_nat (card {t. t \<noteq> Null \<and> (\<exists>x \<in> set (rws T).
               x ''user_id'' = r ''user_id'' \<and> notna (x ''user_id'') \<and> x ''transaction_id'' = t)}))"
    if "r \<in> set (rws (table ''user_transactions'' (fst (UserTransactionsMerger_merge pd T P errs))))" for r
  proof -
    from user_transactions_table [OF that] obtain out
      where out: "user_transactions_try pd T P = Inr out" and r: "r \<in> set (rws out)" by blast
    from r user_transactions_rows(1) [OF out]
    obtain i where i: "i < length (rws P)" "r = rws out ! i"
      by (auto simp: in_set_conv_nth)
    show ?thesis
      unfolding i(2)
      by (simp only: user_transactions_rows(2,3) [OF out i(1)] agg_nunique_filter_card)
  qed
  have i: "r ''transaction_count'' =
        Num (of_nat (card {t. t \<noteq> Null \<and> (\<exists>x \<in> set (rws T).
               x ''item'' = r ''item'' \<and> x ''transaction_id'' = t)}))"
    if "r \<in> set (rws (table ''item_summary'' (fst (ItemSummaryMerger_merge pd T errs))))" for r
  proof -
    from item_summary_rows [OF that] obtain a b c k where k: "r = item_summary_row a b c (rws T) k"
      by blast
    have "r ''item'' = k"
      "r ''transaction_count'' = Num (of_nat (agg_nunique ''transaction_id'' (group_rows ''item'' k (rws T))))"
      by (simp_all add: k item_summary_row_def Let_def)
    then show ?thesis by (simp only: agg_nunique_group_card)
  qed
  have s: "r ''total_transactions'' =
        Num (of_nat (card {t. t \<noteq> Null \<and> (\<exists>x \<in> set (rws T).
               x ''store'' = r ''store'' \<and> x ''transaction_id'' = t)}))"
    if "r \<in> set (rws (table ''store_summary'' (fst (StoreSummaryMerger_merge pd T errs))))" for r
  proof -
    from store_summary_rows [OF that] obtain a b c d k
      where k: "r = store_summary_row a b c d (rws T) k" by blast
    have "r ''store'' = k"
      "r ''total_transactions'' = Num (of_nat (agg_nunique ''transaction_id'' (group_rows ''store'' k (rws T))))"
      by (simp_all add: k store_summary_row_def Let_def)
    then show ?thesis by (simp only: agg_nunique_group_card)
  qed
  from u i s show ?thesis by blast
qed

theorem distinct_transaction_counts_witness:
  "length (rws tx_split) = 3
   \<and> col ''transaction_id'' tx_split = [Num 100, Num 100, Num 100]
   \<and> col ''user_id'' (table ''user_transactions'' (fst (UserTransactionsMerger_merge exact_pandas tx_split two_people []))) = [Num 1, Num 2]
   \<and> col ''transaction_count'' (table ''user_transactions'' (fst (UserTransactionsMerger_merge exact_pandas tx_split two_people []))) = [Num 1, Num 0]
   \<and> col ''item'' (table ''item_summary'' (fst (ItemSummaryMerger_merge exact_pandas tx_split []))) = [Str ''coffee'', Str ''tea'']
   \<and> col ''transaction_count'' (table ''item_summary'' (fst (ItemSummaryMerger_merge exact_pandas tx_split []))) = [Num 1, Num 1]
   \<and> col ''store'' (table ''store_summary'' (fst (StoreSummaryMerger_merge exact_pandas tx_split []))) = [Str ''shop'']
   \<and> col ''total_transactions'' (table ''store_summary'' (fst (StoreSummaryMerger_merge exact_pandas tx_split []))) = [Num 1]
   \<and> card {t. t \<noteq> Null \<and> (\<exists>x \<in> set (rws tx_split).
               x ''store'' = Str ''shop'' \<and> x ''transaction_id'' = t)} = 1"
proof -
  have a: "length (rws tx_split) = 3"
    "col ''transaction_id'' tx_split = [Num 100, Num 100, Num 100]"
    by (simp_all add: tx_split_def transactions_frame_def col_def line_def empty_row_def)
  have b: "col ''user_id'' (table ''user_transactions'' (fst (UserTransactionsMerger_merge exact_pandas tx_split two_people []))) = [Num 1, Num 2]"
    "col ''transaction_count'' (table ''user_transactions'' (fst (UserTransactionsMerger_merge exact_pandas tx_split two_people []))) = [Num 1, Num 0]"
    by (simp_all add: user_transactions_defs pandas_defs tx_split_def Let_def)
  have c: "col ''item'' (table ''item_summary'' (fst (ItemSummaryMerger_merge exact_pandas tx_split []))) = [Str ''coffee'', Str ''tea'']"
    "col ''transaction_count'' (table ''item_summary'' (fst (ItemSummaryMerger_merge exact_pandas tx_split []))) = [Num 1, Num 1]"
    by (simp_all add: item_summary_defs pandas_defs tx_split_def Let_def)
  have d: "col ''store'' (table ''store_summary'' (fst (StoreSummaryMerger_merge exact_pandas tx_split []))) = [Str ''shop'']"
    "col ''total_transactions'' (table ''store_summary'' (fst (StoreSummaryMerger_merge exact_pandas tx_split []))) = [Num 1]"
    by (simp_all add: store_summary_defs pandas_defs tx_split_def Let_def)
  from d obtain r
    where rs: "rws (table ''store_summary'' (fst (StoreSummaryMerger_merge exact_pandas tx_split []))) = [r]"
      and e: "r ''store'' = Str ''shop''" "r ''total_transactions'' = Num 1"
    unfolding col_def by (auto simp: map_eq_Cons_conv)
  from distinct_transaction_counts [of exact_pandas tx_split two_people "[]"]
  have "\<forall>r \<in> set (rws (table ''store_summary'' (fst (StoreSummaryMerger_merge exact_pandas tx_split [])))).
      r ''total_transactions'' =
        Num (of_nat (card {t. t \<noteq> Null \<and> (\<exists>x \<in> set (rws tx_split).
               x ''store'' = r ''store'' \<and> x ''transaction_id'' = t)}))"
    by blast
  then have "Num 1 = Num (of_nat (card {t. t \<noteq> Null \<and> (\<exists>x \<in> set (rws tx_split).
               x ''store'' = Str ''shop'' \<and> x ''transaction_id'' = t)}))"
    unfolding rs using e by simp
  then have f: "card {t. t \<noteq> Null \<and> (\<exists>x \<in> set (rws tx_split).
               x ''store'' = Str ''shop'' \<and> x ''transaction_id'' = t)} = 1"
    by simp
  from a b c d f show ?thesis by simp
qed

section \<open>Lines without a user\<close>

lemma group_keys_filter_notna:
  "group_keys k (filter (\<lambda>x. notna (x k)) rs) = group_keys k rs"
proof -
  have "filter notna (map (\<lambda>r. r k) (filter (\<lambda>x. notna (x k)) rs)) =
        filter notna (map (\<lambda>r. r k) rs)"
    by (induction rs) simp_all
  then show ?thesis by (simp only: group_keys_def)
qed

lemma group_rows_filter_notna:
  "v \<noteq> Null \<Longrightarrow> group_rows k v (filter (\<lambda>x. notna (x k)) rs) = group_rows k v rs"
  by (induction rs) (auto simp: group_rows_def notna_def)

lemma grouped_sum_filter_notna:
  "grouped_sum pd k c (filter (\<lambda>x. notna (x k)) rs) = grouped_sum pd k c rs"
  unfolding grouped_sum_def
  by (rule series_cong) (simp_all add: group_keys_filter_notna group_rows_filter_notna set_group_keys)

lemma user_transactions_agg_filter:
  "user_transactions_agg pd (T\<lparr>rws := filter (\<lambda>x. notna (x ''user_id'')) (rws T)\<rparr>) =
     user_transactions_agg pd T"
proof -
  have "user_transactions_row s (filter (\<lambda>x. notna (x ''user_id'')) (rws T)) k =
        user_transactions_row s (rws T) k"
    if "k \<in> set (group_keys ''user_id'' (rws T))" for k s
  proof -
    from that have "k \<noteq> Null" by (simp add: set_group_keys)
    then show ?thesis
      by (simp add: user_transactions_row_def group_rows_filter_notna)
  qed
  then have "map (user_transactions_row s (filter (\<lambda>x. notna (x ''user_id'')) (rws T)))
               (group_keys ''user_id'' (rws T)) =
             map (user_transactions_row s (rws T)) (group_keys ''user_id'' (rws T))" for s
    by (intro map_cong) simp_all
  note eq = this
  show ?thesis
    by (simp add: user_transactions_agg_def group_keys_filter_notna grouped_sum_filter_notna eq)
qed

lemma group_keys_unchanged:
  "(\<And>r. g r k = r k) \<Longrightarrow> group_keys k (map g rs) = group_keys k rs"
  by (simp add: group_keys_def comp_def)

lemma group_rows_unchanged:
  "(\<And>r. g r k = r k) \<Longrightarrow> group_rows k v (map g rs) = map g (group_rows k v rs)"
  by (simp add: group_rows_def filter_map comp_def)

lemma agg_nunique_unchanged:
  "(\<And>r. g r c = r c) \<Longrightarrow> agg_nunique c (map g rs) = agg_nunique c rs"
  by (simp add: agg_nunique_def comp_def)

lemma grouped_sum_unchanged:
  "(\<And>r. g r k = r k) \<Longrightarrow> (\<And>r. g r c = r c) \<Longrightarrow>
     grouped_sum pd k c (map g rs) = grouped_sum pd k c rs"
  by (simp add: grouped_sum_def group_keys_unchanged group_rows_unchanged comp_def)

lemma grouped_nunique_unchanged:
  "(\<And>r. g r k = r k) \<Longrightarrow> (\<And>r. g r c = r c) \<Longrightarrow>
     grouped_nunique k c (map g rs) = grouped_nunique k c rs"
  by (simp add: grouped_nunique_def group_keys_unchanged group_rows_unchanged
      agg_nunique_unchanged)

lemma item_summary_row_user_id:
  "item_summary_row a b c (map (\<lambda>r. r(''user_id'' := f r)) rs) k = item_summary_row a b c rs k"
  by (simp add: item_summary_row_def group_rows_unchanged agg_nunique_unchanged)

lemma item_summary_try_user_id:
  "item_summary_try pd (T\<lparr>rws := map (\<lambda>r. r(''user_id'' := f r)) (rws T)\<rparr>) = item_summary_try pd T"
  by (simp add: item_summary_try_def Let_def group_keys_unchanged grouped_sum_unchanged
      item_summary_row_user_id cong: map_cong)

lemma store_filter_user_id:
  "filter (\<lambda>r. r ''store'' = s \<and> notna s) (map (\<lambda>r. r(''user_id'' := f r)) rs) =
     map (\<lambda>r. r(''user_id'' := f r)) (filter (\<lambda>r. r ''store'' = s \<and> notna s) rs)"
  by (simp add: filter_map comp_def)

lemma get_most_sold_item_user_id:
  "get_most_sold_item pd (map (\<lambda>r. r(''user_id'' := f r)) rs) store =
     get_most_sold_item pd rs store"
  by (simp add: get_most_sold_item_def store_filter_user_id grouped_sum_unchanged Let_def)

lemma get_most_profitable_item_user_id:
  "get_most_profitable_item pd (map (\<lambda>r. r(''user_id'' := f r)) rs) store =
     get_most_profitable_item pd rs store"
  by (simp add: get_most_profitable_item_def store_filter_user_id grouped_sum_unchanged Let_def)

lemma most_items_user_id:
  "most_items pd (map (\<lambda>r. r(''user_id'' := f r)) rs) stores = most_items pd rs stores"
  by (simp add: most_items_def get_most_sold_item_user_id get_most_profitable_item_user_id)

lemma store_summary_row_user_id:
  "store_summary_row a b c d (map (\<lambda>r. r(''user_id'' := f r)) rs) k = store_summary_row a b c d rs k"
  by (simp add: store_summary_row_def group_rows_unchanged agg_nunique_unchanged)

lemma store_summary_try_user_id:
  "store_summary_try pd (T\<lparr>rws := map (\<lambda>r. r(''user_id'' := f r)) (rws T)\<rparr>) = store_summary_try pd T"
  by (simp add: store_summary_try_def Let_def group_keys_unchanged grouped_sum_unchanged
      grouped_nunique_unchanged most_items_user_id store_summary_row_user_id cong: map_cong)

text \<open>
  Claim C9. Transaction lines whose \<^verbatim>\<open>user_id\<close> is null take no part in the per-user
  summary: removing them from the transactions leaves the result of
  \<^verbatim>\<open>UserTransactionsMerger.merge\<close> as it is, totals, counts, favourites and errors. The
  per-item and the per-store summary do not read \<^verbatim>\<open>user_id\<close>: whatever stands in that
  column, null or not, their results are the same, so a line without a user counts in
  them as any other line does.
\<close>

theorem unresolved_lines:
  "UserTransactionsMerger_merge pd (T\<lparr>rws := filter (\<lambda>x. notna (x ''user_id'')) (rws T)\<rparr>) P errs
     = UserTransactionsMerger_merge pd T P errs
   \<and> ItemSummaryMerger_merge pd (T\<lparr>rws := map (\<lambda>r. r(''user_id'' := f r)) (rws T)\<rparr>) errs
     = ItemSummaryMerger_merge pd T errs
   \<and> StoreSummaryMerger_merge pd (T\<lparr>rws := map (\<lambda>r. r(''user_id'' := f r)) (rws T)\<rparr>) errs
     = StoreSummaryMerger_merge pd T errs"
proof -
  have a: "UserTransactionsMerger_merge pd (T\<lparr>rws := filter (\<lambda>x. notna (x ''user_id'')) (rws T)\<rparr>) P errs
     = UserTransactionsMerger_merge pd T P errs"
    by (simp add: UserTransactionsMerger_merge_def user_transactions_try_def
        user_transactions_agg_filter missing_columns_def)
  have b: "ItemSummaryMerger_merge pd (T\<lparr>rws := map (\<lambda>r. r(''user_id'' := f r)) (rws T)\<rparr>) errs
     = ItemSummaryMerger_merge pd T errs"
    by (simp add: ItemSummaryMerger_merge_def missing_columns_def item_summary_try_user_id)
  have c: "StoreSummaryMerger_merge pd (T\<lparr>rws := map (\<lambda>r. r(''user_id'' := f r)) (rws T)\<rparr>) errs
     = StoreSummaryMerger_merge pd T errs"
    by (simp add: StoreSummaryMerger_merge_def missing_columns_def store_summary_try_user_id)
  from a b c show ?thesis by blast
qed

theorem unresolved_lines_witness:
  "col ''user_id'' tx_unknown_user = [Num 1, Null]
   \<and> UserTransactionsMerger_merge exact_pandas
        (tx_unknown_user\<lparr>rws := [line 1 (Num 1) ''tea'' ''shop'' 10 1]\<rparr>) two_people []
      = UserTransactionsMerger_merge exact_pandas tx_unknown_user two_people []
   \<and> col ''total_spent'' (table ''user_transactions'' (fst (UserTransactionsMerger_merge exact_pandas tx_unknown_user two_people []))) = [Num 10, Num 0]
   \<and> col ''transaction_count'' (table ''user_transactions'' (fst (UserTransactionsMerger_merge exact_pandas tx_unknown_user two_people []))) = [Num 1, Num 0]
   \<and> col ''item'' (table ''item_summary'' (fst (ItemSummaryMerger_merge exact_pandas tx_unknown_user []))) = [Str ''tea'']
   \<and> col ''total_revenue'' (table ''item_summary'' (fst (ItemSummaryMerger_merge exact_pandas tx_unknown_user []))) = [Num 17]
   \<and> col ''items_sold'' (table ''item_summary'' (fst (ItemSummaryMerger_merge exact_pandas tx_unknown_user []))) = [Num 3]
   \<and> col ''transaction_count'' (table ''item_summary'' (fst (ItemSummaryMerger_merge exact_pandas tx_unknown_user []))) = [Num 2]
   \<and> col ''store'' (table ''store_summary'' (fst (StoreSummaryMerger_merge exact_pandas tx_unknown_user []))) = [Str ''shop'']
   \<and> col ''total_revenue'' (table ''store_summary'' (fst (StoreSummaryMerger_merge exact_pandas tx_unknown_user []))) = [Num 17]
   \<and> col ''total_transactions'' (table ''store_summary'' (fst (StoreSummaryMerger_merge exact_pandas tx_unknown_user []))) = [Num 2]"
proof -
  have a: "col ''user_id'' tx_unknown_user = [Num 1, Null]"
    by (simp add: col_def tx_unknown_user_def transactions_frame_def line_def empty_row_def)
  have f: "filter (\<lambda>x. notna (x ''user_id'')) (rws tx_unknown_user) =
             [line 1 (Num 1) ''tea'' ''shop'' 10 1]"
    by (simp add: tx_unknown_user_def transactions_frame_def line_def empty_row_def notna_def)
  from unresolved_lines [of exact_pandas tx_unknown_user two_people "[]"]
  have b: "UserTransactionsMerger_merge exact_pandas
        (tx_unknown_user\<lparr>rws := [line 1 (Num 1) ''tea'' ''shop'' 10 1]\<rparr>) two_people []
      = UserTransactionsMerger_merge exact_pandas tx_unknown_user two_people []"
    unfolding f by blast
  have c: "col ''total_spent'' (table ''user_transactions'' (fst (UserTransactionsMerger_merge exact_pandas tx_unknown_user two_people []))) = [Num 10, Num 0]"
    "col ''transaction_count'' (table ''user_transactions'' (fst (UserTransactionsMerger_merge exact_pandas tx_unknown_user two_people []))) = [Num 1, Num 0]"
    by (simp_all add: user_transactions_defs pandas_defs tx_unknown_user_def Let_def)
  have d: "col ''item'' (table ''item_summary'' (fst (ItemSummaryMerger_merge exact_pandas tx_unknown_user []))) = [Str ''tea'']"
    "col ''total_revenue'' (table ''item_summary'' (fst (ItemSummaryMerger_merge exact_pandas tx_unknown_user []))) = [Num 17]"
    "col ''items_sold'' (table ''item_summary'' (fst (ItemSummaryMerger_merge exact_pandas tx_unknown_user []))) = [Num 3]"
    "col ''transaction_count'' (table ''item_summary'' (fst (ItemSummaryMerger_merge exact_pandas tx_unknown_user []))) = [Num 2]"
    by (simp_all add: item_summary_defs pandas_defs tx_unknown_user_def Let_def)
  have e: "col ''store'' (table ''store_summary'' (fst (StoreSummaryMerger_merge exact_pandas tx_unknown_user []))) = [Str ''shop'']"
    "col ''total_revenue'' (table ''store_summary'' (fst (StoreSummaryMerger_merge exact_pandas tx_unknown_user []))) = [Num 17]"
    "col ''total_transactions'' (table ''store_summary'' (fst (StoreSummaryMerger_merge exact_pandas tx_unknown_user []))) = [Num 2]"
    by (simp_all add: store_summary_defs pandas_defs tx_unknown_user_def Let_def)
  from a b c d e show ?thesis by simp
qed

end
